theory Spec2Isabelle
  imports Main "HOL-Library.Sublist"
begin

section \<open>JavaScript values\<close>

text \<open>
  The chat client of HOLOKIA-AVATAR is a React component (ChatInterface.jsx) with three
  HTTP clients (api-config, tts-service, stt-service). The bodies that the services answer
  with are JSON of any shape, and the code reads them with property access, truthiness
  tests and \<^verbatim>\<open>||\<close>, so they are modelled as untyped values.

  A \<^typ>\<open>string\<close> stands for a JavaScript string whose UTF-16 code units are all below
  256, one \<^typ>\<open>char\<close> per code unit, so that \<^const>\<open>length\<close> is \<^verbatim>\<open>.length\<close>.
  Numbers are restricted to integers: the program only copies and prints the numbers it
  receives. An object is the list of its own properties in insertion order; it stands
  for an object made by \<^verbatim>\<open>JSON.parse\<close> or by an object literal, whose prototype is
  \<^verbatim>\<open>Object.prototype\<close> and whose own properties are no functions.
\<close>

datatype jsval =
    Undefined
  | Null
  | JBool bool
  | JNum int
  | JStr string
  | JObj "(string \<times> jsval) list"

text \<open>An exception value: its \<^verbatim>\<open>message\<close> and its \<^verbatim>\<open>response\<close> property (set by axios
  when the server answered with an error status, \<^verbatim>\<open>undefined\<close> otherwise).\<close>

datatype exn = Exn (exn_message: string) (exn_response: jsval)

definition TypeError :: "string \<Rightarrow> exn" where
  "TypeError m = Exn m Undefined"

definition ReferenceError :: "string \<Rightarrow> exn" where
  "ReferenceError m = Exn m Undefined"

fun truthy :: "jsval \<Rightarrow> bool" where
  "truthy Undefined = False"
| "truthy Null = False"
| "truthy (JBool b) = b"
| "truthy (JNum n) = (n \<noteq> 0)"
| "truthy (JStr s) = (s \<noteq> [])"
| "truthy (JObj kvs) = True"

text \<open>\<^verbatim>\<open>a || b\<close>\<close>

definition js_or :: "jsval \<Rightarrow> jsval \<Rightarrow> jsval" where
  "js_or a b = (if truthy a then a else b)"

text \<open>The members every plain object inherits from \<^verbatim>\<open>Object.prototype\<close>.\<close>

definition object_prototype_keys :: "string list" where
  "object_prototype_keys =
     [''constructor'', ''hasOwnProperty'', ''isPrototypeOf'', ''propertyIsEnumerable'',
      ''toLocaleString'', ''toString'', ''valueOf'', ''__proto__'', ''__defineGetter__'',
      ''__defineSetter__'', ''__lookupGetter__'', ''__lookupSetter__'']"

text \<open>Own properties: in an object literal and in parsed JSON a later duplicate key
  overwrites an earlier one.\<close>

definition own_prop :: "(string \<times> jsval) list \<Rightarrow> string \<Rightarrow> jsval option" where
  "own_prop kvs k = map_of (rev kvs) k"

text \<open>
  \<^verbatim>\<open>v[k]\<close> for a value that is neither \<^verbatim>\<open>null\<close> nor \<^verbatim>\<open>undefined\<close>. An inherited member
  is a function or an object; it is rendered as an (empty) object, which like it is
  truthy and strictly equal to no string. On a boolean, a number or a string the property
  names this program reads do not exist.
\<close>

fun js_prop :: "jsval \<Rightarrow> string \<Rightarrow> jsval" where
  "js_prop (JObj kvs) k =
     (case own_prop kvs k of
        Some v \<Rightarrow> v
      | None \<Rightarrow> if k \<in> set object_prototype_keys then JObj [] else Undefined)"
| "js_prop v k = Undefined"

text \<open>\<^verbatim>\<open>v.k\<close>: a TypeError on \<^verbatim>\<open>null\<close> and \<^verbatim>\<open>undefined\<close> (message as V8 words it).\<close>

fun js_get :: "jsval \<Rightarrow> string \<Rightarrow> exn + jsval" where
  "js_get Undefined k =
     Inl (TypeError (''Cannot read properties of undefined (reading '' @ [CHR 0x27] @ k @ [CHR 0x27] @ '')''))"
| "js_get Null k =
     Inl (TypeError (''Cannot read properties of null (reading '' @ [CHR 0x27] @ k @ [CHR 0x27] @ '')''))"
| "js_get v k = Inr (js_prop v k)"

text \<open>\<^verbatim>\<open>a?.k\<close>\<close>

definition js_opt :: "jsval \<Rightarrow> string \<Rightarrow> jsval" where
  "js_opt v k = (case js_get v k of Inl e \<Rightarrow> Undefined | Inr x \<Rightarrow> x)"

text \<open>Decimal digits of a natural number.\<close>

definition digit_char :: "nat \<Rightarrow> char" where
  "digit_char d = char_of (of_char (CHR ''0'') + d)"

fun decimal :: "nat \<Rightarrow> string" where
  "decimal n = (if n < 10 then [digit_char n] else decimal (n div 10) @ [digit_char (n mod 10)])"

declare decimal.simps [simp del]

definition decimal_int :: "int \<Rightarrow> string" where
  "decimal_int i = (if i < 0 then CHR ''-'' # decimal (nat (- i)) else decimal (nat i))"

text \<open>
  How a number prints. An integer of magnitude up to \<open>2^53\<close> is a number of JavaScript
  as it is, and prints as its decimal digits. Beyond, what prints are the shortest digits
  of the nearest double, in exponent form from \<open>10^21\<close>: this is the engine's, and a
  parameter \<open>nt\<close> here.
\<close>

definition number_to_string :: "(int \<Rightarrow> string) \<Rightarrow> int \<Rightarrow> string" where
  "number_to_string nt n = (if \<bar>n\<bar> \<le> 2 ^ 53 then decimal_int n else nt n)"

text \<open>
  The conversion a template literal \<^verbatim>\<open>`${v}`\<close> applies. For an object it calls the
  member \<^verbatim>\<open>toString\<close>, then \<^verbatim>\<open>valueOf\<close>, skipping one that is no function, and wants a
  primitive value from one of them. The inherited \<^verbatim>\<open>toString\<close> gives
  \<^verbatim>\<open>[object Object]\<close>. An own property \<^verbatim>\<open>toString\<close> hides it and is no function; then
  \<^verbatim>\<open>valueOf\<close> is either an own property, no function again, or the inherited one, which
  returns the object itself: the conversion throws a TypeError (message as V8 words it).
\<close>

fun js_to_string :: "(int \<Rightarrow> string) \<Rightarrow> jsval \<Rightarrow> exn + string" where
  "js_to_string nt Undefined = Inr ''undefined''"
| "js_to_string nt Null = Inr ''null''"
| "js_to_string nt (JBool b) = Inr (if b then ''true'' else ''false'')"
| "js_to_string nt (JNum n) = Inr (number_to_string nt n)"
| "js_to_string nt (JStr s) = Inr s"
| "js_to_string nt (JObj kvs) =
     (case own_prop kvs ''toString'' of
        None \<Rightarrow> Inr ''[object Object]''
      | Some v \<Rightarrow> Inl (TypeError ''Cannot convert object to primitive value''))"

text \<open>\<^verbatim>\<open>String.prototype.trim\<close>: the white space and line terminators below 256.\<close>

definition js_whitespace :: "char \<Rightarrow> bool" where
  "js_whitespace c =
     (c \<in> set [CHR 0x09, CHR 0x0A, CHR 0x0B, CHR 0x0C, CHR 0x0D, CHR 0x20, CHR 0xA0])"

definition trim :: "string \<Rightarrow> string" where
  "trim s = rev (dropWhile js_whitespace (rev (dropWhile js_whitespace s)))"

text \<open>A text shown to the user that may hold characters beyond 255 (the Arabic label of
  \<^verbatim>\<open>LANGUAGES\<close>) is the list of its UTF-16 code units.\<close>

type_synonym utf16 = "nat list"

definition units :: "string \<Rightarrow> utf16" where
  "units s = map of_char s"

section \<open>Language detection (ChatInterface.jsx, lines 13-68)\<close>

text \<open>An entry of \<^verbatim>\<open>LANGUAGES\<close>, with the fields \<^verbatim>\<open>value\<close>, \<^verbatim>\<open>label\<close> and \<^verbatim>\<open>gtts\<close>.\<close>

record language =
  lang_value :: string
  lang_label :: utf16
  lang_gtts :: string

definition LANGUAGES :: "language list" where
  "LANGUAGES =
     [\<lparr>lang_value = ''en'', lang_label = units ''English'', lang_gtts = ''en''\<rparr>,
      \<lparr>lang_value = ''fr'', lang_label = units (''Fran'' @ [CHR 0xE7] @ ''ais''), lang_gtts = ''fr''\<rparr>,
      \<lparr>lang_value = ''ar'', lang_label = [0x627, 0x644, 0x639, 0x631, 0x628, 0x64A, 0x629],
        lang_gtts = ''ar''\<rparr>]"

text \<open>\<^verbatim>\<open>getLangLabel(lang)\<close>: \<^verbatim>\<open>LANGUAGES.find(l => l.value === lang)?.label || lang\<close>\<close>

definition getLangLabel :: "string \<Rightarrow> utf16" where
  "getLangLabel lang =
     (case find (\<lambda>l. lang_value l = lang) LANGUAGES of
        None \<Rightarrow> units lang
      | Some l \<Rightarrow> if lang_label l = [] then units lang else lang_label l)"

text \<open>The object literal \<^verbatim>\<open>langMapping\<close> of \<^verbatim>\<open>detectLanguage\<close>, in source order (the key
  \<^verbatim>\<open>"franc "\<close> ends with a blank and \<^verbatim>\<open>"arz"\<close> occurs twice in the source).\<close>

definition langMapping_entries :: "(string \<times> jsval) list" where
  "langMapping_entries =
     [(''eng'', JStr ''en''), (''fra'', JStr ''fr''), (''franc '', JStr ''fr''),
      (''ara'', JStr ''ar''), (''arb'', JStr ''ar''), (''arz'', JStr ''ar''),
      (''acm'', JStr ''ar''), (''afb'', JStr ''ar''), (''ajp'', JStr ''ar''),
      (''apc'', JStr ''ar''), (''apd'', JStr ''ar''), (''ary'', JStr ''ar''),
      (''arz'', JStr ''ar''), (''auz'', JStr ''ar''), (''avl'', JStr ''ar''),
      (''ayh'', JStr ''ar''), (''ayl'', JStr ''ar''), (''ayn'', JStr ''ar''),
      (''ayp'', JStr ''ar''), (''bbz'', JStr ''ar''), (''pga'', JStr ''ar''),
      (''shu'', JStr ''ar''), (''ssh'', JStr ''ar'')]"

definition langMapping :: jsval where
  "langMapping = JObj langMapping_entries"

text \<open>
  \<^verbatim>\<open>detectLanguage(text)\<close>. The classifier \<^verbatim>\<open>franc\<close> of the library franc-min is a
  parameter: it answers with a language code or throws.
\<close>

definition detectLanguage :: "(string \<Rightarrow> exn + string) \<Rightarrow> string \<Rightarrow> jsval" where
  "detectLanguage franc text =
     (if text = [] \<or> length (trim text) < 3 then JStr ''en''
      else
        (case franc (trim text) of
           Inl thrown \<Rightarrow> JStr ''en''
         | Inr detected \<Rightarrow>
             (let mappedLang = js_or (js_prop langMapping detected) (JStr detected)
              in if list_ex (\<lambda>l. JStr (lang_value l) = mappedLang) LANGUAGES then mappedLang
                 else JStr ''en'')))"

section \<open>The remote clients (api-config, tts-service.js, stt-service)\<close>

text \<open>
  What a function does beyond returning is written as the list of its effects, in program
  order: calls of the React state setters, local-storage calls, timers, HTTP requests and
  what is done to the one audio element (its source set, the analyser connected to it,
  \<^verbatim>\<open>play()\<close>, \<^verbatim>\<open>pause()\<close>).
  A handler reads the state of the render that created it (its closure) and produces
  such a list; \<open>apply_event\<close> below says what each effect does to the state.
\<close>

record msg =
  msg_text :: jsval
  msg_sender :: string

record history_entry =
  role :: string
  content :: jsval

record chat_payload =
  history :: "history_entry list"
  detectedLanguage :: string

record tts_request =
  tts_text :: jsval
  audio_id :: string
  tts_lang :: string
  speaker :: string

record stt_request =
  stt_file :: string
  model_size :: string

datatype callback = ClearSendFeedback | ClearNotification | HideLangIndicator | CallSendMessage

datatype event =
    PreventDefault
  | AppendMessage msg
  | SetMessages "msg list"
  | SetMessage string
  | SetSendFeedback bool
  | SetIsLoading bool
  | SetNotification "string option"
  | SetError jsval
  | SetAudioFile string
  | SetDetectedLang string
  | SetShowLangIndicator bool
  | SetLangNotification "utf16 option"
  | SetIsPlaying bool
  | AudioSrc string
  | ConnectAudio
  | AudioPlay
  | AudioPause
  | RemoveItem string
  | SetItem string "msg list"
  | SetTimeout nat callback
  | PostChat chat_payload
  | PostTTS tts_request
  | PostSTT stt_request

text \<open>
  What the program is run against: the chat and the speech service behind
  \<^verbatim>\<open>axios.post\<close>, each rejecting with an exception or resolving with a body; the clock
  \<^verbatim>\<open>Date.now()\<close>; and the engine's printing of the numbers beyond the safe integers.
\<close>

record services =
  chat_post :: "chat_payload \<Rightarrow> exn + jsval"
  tts_post :: "tts_request \<Rightarrow> exn + jsval"
  now :: nat
  number_text :: "int \<Rightarrow> string"

abbreviation eacute :: char where
  "eacute \<equiv> CHR 0xE9"

abbreviation apostrophe :: char where
  "apostrophe \<equiv> CHR 0x27"

text \<open>The error sentinel \<^verbatim>\<open>{error: true, message}\<close>.\<close>

definition sentinel :: "jsval \<Rightarrow> jsval" where
  "sentinel m = JObj [(''error'', JBool True), (''message'', m)]"

text \<open>\<^verbatim>\<open>error.response?.data?.detail\<close>\<close>

definition response_detail :: "exn \<Rightarrow> jsval" where
  "response_detail err = js_opt (js_opt (exn_response err) ''data'') ''detail''"

text \<open>
  \<^verbatim>\<open>apiClient.generateResponse(payload)\<close>. The parameter \<open>post\<close> is the chat service
  behind \<^verbatim>\<open>axios.post\<close>: it rejects with an exception or resolves with a body.
\<close>

definition generateResponse ::
  "(chat_payload \<Rightarrow> exn + jsval) \<Rightarrow> chat_payload \<Rightarrow> event list \<times> jsval" where
  "generateResponse post payload =
     ([PostChat payload],
      (case post payload of
         Inr data \<Rightarrow> data
       | Inl err \<Rightarrow> sentinel (js_or (response_detail err) (JStr (exn_message err)))))"

text \<open>
  \<^verbatim>\<open>ttsService.generateAudio(text, audioId, language)\<close>, called with three arguments, so
  that the speaker is the default one. Its \<^verbatim>\<open>try\<close> block first logs a template literal
  that holds \<^verbatim>\<open>text\<close>, which converts it to a string (the other two values in it are
  strings), then posts: the effects, and the body returned or the exception thrown.
\<close>

definition generateAudio_try ::
  "services \<Rightarrow> jsval \<Rightarrow> string \<Rightarrow> string \<Rightarrow> event list \<times> (exn + jsval)" where
  "generateAudio_try sv txt audioId lang =
     (case js_to_string (number_text sv) txt of
        Inl thrown \<Rightarrow> ([], Inl thrown)
      | Inr logged \<Rightarrow>
          (let request = \<lparr>tts_text = txt, audio_id = audioId, tts_lang = lang,
                          speaker = ''female-pt-4''\<rparr>
           in ([PostTTS request], tts_post sv request)))"

definition generateAudio ::
  "services \<Rightarrow> jsval \<Rightarrow> string \<Rightarrow> string \<Rightarrow> event list \<times> jsval" where
  "generateAudio sv txt audioId lang =
     (case generateAudio_try sv txt audioId lang of
        (evs, Inr data) \<Rightarrow> (evs, data)
      | (evs, Inl err) \<Rightarrow> (evs, sentinel (js_or (response_detail err) (JStr (exn_message err)))))"

text \<open>The argument of \<^verbatim>\<open>sttService.generateText\<close>: a \<^verbatim>\<open>File\<close> (with its name) or any
  other value.\<close>

datatype audio_arg = File string | NotFile jsval

definition STT_ARGUMENT :: string where
  "STT_ARGUMENT = ''L'' @ [apostrophe] @ ''argument audioFile doit '' @ [CHR 0xEA] @ ''tre un objet File''"

definition STT_FAILED :: string where
  "STT_FAILED = [CHR 0xC9] @ ''chec lors de la transcription de l'' @ [apostrophe] @ ''audio''"

text \<open>The \<^verbatim>\<open>try\<close> block of \<^verbatim>\<open>generateText\<close>: the effects so far, and the value returned or
  the exception thrown.\<close>

definition generateText_try ::
  "(stt_request \<Rightarrow> exn + jsval) \<Rightarrow> audio_arg \<Rightarrow> string option \<Rightarrow> event list \<times> (exn + jsval)" where
  "generateText_try post audioFile modelSize =
     (case audioFile of
        NotFile v \<Rightarrow> ([], Inl (Exn STT_ARGUMENT Undefined))
      | File name \<Rightarrow>
          (let request = \<lparr>stt_file = name,
                 model_size = (case modelSize of None \<Rightarrow> ''base'' | Some m \<Rightarrow> m)\<rparr>
           in case post request of
                Inl err \<Rightarrow> ([PostSTT request], Inl err)
              | Inr data \<Rightarrow>
                  (case js_get data ''text'' of
                     Inl err \<Rightarrow> ([PostSTT request], Inl err)
                   | Inr t \<Rightarrow>
                       ([PostSTT request],
                        Inr (JObj [(''text'', t), (''lang'', js_prop data ''lang''),
                                   (''confidence'', js_prop data ''confidence'')])))))"

definition generateText ::
  "(stt_request \<Rightarrow> exn + jsval) \<Rightarrow> audio_arg \<Rightarrow> string option \<Rightarrow> event list \<times> jsval" where
  "generateText post audioFile modelSize =
     (case generateText_try post audioFile modelSize of
        (evs, Inr v) \<Rightarrow> (evs, v)
      | (evs, Inl err) \<Rightarrow> (evs, sentinel (js_or (response_detail err) (JStr STT_FAILED))))"

text \<open>The shape test a caller applies to a result: exactly \<^verbatim>\<open>{error: true, message}\<close>.\<close>

fun is_sentinel :: "jsval \<Rightarrow> bool" where
  "is_sentinel (JObj [(k1, JBool b), (k2, m)]) = (k1 = ''error'' \<and> b \<and> k2 = ''message'')"
| "is_sentinel v = False"

definition network_calls :: "event list \<Rightarrow> event list" where
  "network_calls evs =
     filter (\<lambda>e. case e of PostChat p \<Rightarrow> True | PostTTS r \<Rightarrow> True | PostSTT r \<Rightarrow> True | _ \<Rightarrow> False) evs"

section \<open>The component state (ChatInterface.jsx, lines 70-86)\<close>

text \<open>
  The \<^verbatim>\<open>useState\<close> cells the handlers and effects below write, with the browser's
  local storage and the audio element (its source, and whether it is paused). A stored
  item is kept as the message list whose JSON text it is.
\<close>

record ui =
  message :: string
  messages :: "msg list"
  isLoading :: bool
  error :: jsval
  notification :: "string option"
  sendFeedback :: bool
  detectedLang :: string
  showLangIndicator :: bool
  langNotification :: "utf16 option"
  isPlaying :: bool
  audioFile :: string
  audio_src :: string
  audio_paused :: bool
  localStorage :: "string \<rightharpoonup> msg list"

text \<open>The initial values of the cells; \<^verbatim>\<open>messages\<close> starts from the stored list, if any.
  A new audio element has no source and is paused.\<close>

definition initial_ui :: "(string \<rightharpoonup> msg list) \<Rightarrow> ui" where
  "initial_ui stored =
     \<lparr>message = [],
      messages = (case stored ''chatMessages'' of None \<Rightarrow> [] | Some ms \<Rightarrow> ms),
      isLoading = False,
      error = Null,
      notification = None,
      sendFeedback = False,
      detectedLang = ''en'',
      showLangIndicator = False,
      langNotification = None,
      isPlaying = False,
      audioFile = [],
      audio_src = [],
      audio_paused = True,
      localStorage = stored\<rparr>"

text \<open>What an effect does to the state. A request and the connection of the analyser leave
  it as it is, a timer only starts. \<^verbatim>\<open>play()\<close> is taken to start playback: the code
  does not look at the promise it returns.\<close>

fun apply_event :: "event \<Rightarrow> ui \<Rightarrow> ui" where
  "apply_event PreventDefault st = st"
| "apply_event (AppendMessage m) st = st\<lparr>messages := messages st @ [m]\<rparr>"
| "apply_event (SetMessages ms) st = st\<lparr>messages := ms\<rparr>"
| "apply_event (SetMessage s) st = st\<lparr>message := s\<rparr>"
| "apply_event (SetSendFeedback b) st = st\<lparr>sendFeedback := b\<rparr>"
| "apply_event (SetIsLoading b) st = st\<lparr>isLoading := b\<rparr>"
| "apply_event (SetNotification n) st = st\<lparr>notification := n\<rparr>"
| "apply_event (SetError v) st = st\<lparr>error := v\<rparr>"
| "apply_event (SetAudioFile p) st = st\<lparr>audioFile := p\<rparr>"
| "apply_event (SetDetectedLang l) st = st\<lparr>detectedLang := l\<rparr>"
| "apply_event (SetShowLangIndicator b) st = st\<lparr>showLangIndicator := b\<rparr>"
| "apply_event (SetLangNotification n) st = st\<lparr>langNotification := n\<rparr>"
| "apply_event (SetIsPlaying b) st = st\<lparr>isPlaying := b\<rparr>"
| "apply_event (AudioSrc p) st = st\<lparr>audio_src := p\<rparr>"
| "apply_event ConnectAudio st = st"
| "apply_event AudioPlay st = st\<lparr>audio_paused := False\<rparr>"
| "apply_event AudioPause st = st\<lparr>audio_paused := True\<rparr>"
| "apply_event (RemoveItem k) st = st\<lparr>localStorage := (localStorage st)(k := None)\<rparr>"
| "apply_event (SetItem k ms) st = st\<lparr>localStorage := (localStorage st)(k \<mapsto> ms)\<rparr>"
| "apply_event (SetTimeout delay cb) st = st"
| "apply_event (PostChat p) st = st"
| "apply_event (PostTTS r) st = st"
| "apply_event (PostSTT r) st = st"

text \<open>The state after the updates of one handler, nothing else happening in between and no
  effect of a render counted (for these see \<open>render\<close> below). A timer only starts; what
  its callback does when it runs is \<open>fire\<close> below.\<close>

definition run :: "event list \<Rightarrow> ui \<Rightarrow> ui" where
  "run evs st = fold apply_event evs st"

section \<open>One conversation turn (ChatInterface.jsx, lines 176-239)\<close>

definition AUDIO_GENERATION :: string where
  "AUDIO_GENERATION =
     ''G'' @ [eacute] @ ''n'' @ [eacute] @ ''ration audio et synchronisation labiale...''"

definition AUDIO_ERROR :: string where
  "AUDIO_ERROR = ''Erreur lors de la g'' @ [eacute] @ ''n'' @ [eacute] @ ''ration audio''"

definition AUDIO_MISSING :: string where
  "AUDIO_MISSING =
     ''Erreur lors de la g'' @ [eacute] @ ''n'' @ [eacute] @ ''ration de l'' @ [apostrophe] @ ''audio''"

definition RESPONSE_GENERATION :: string where
  "RESPONSE_GENERATION =
     ''G'' @ [eacute] @ ''n'' @ [eacute] @ ''ration de la r'' @ [eacute] @ ''ponse...''"

definition TURN_ERROR :: string where
  "TURN_ERROR =
     ''Erreur lors de la g'' @ [eacute] @ ''n'' @ [eacute] @ ''ration de la r'' @ [eacute]
       @ ''ponse ou de l'' @ [apostrophe] @ ''audio.''"

text \<open>
  The \<^verbatim>\<open>try\<close> block of \<^verbatim>\<open>generateAudioAndLipsync\<close> (lines 183-193): the effects, and
  the value returned or the exception thrown. The template literal for the path converts
  \<^verbatim>\<open>result.audioId\<close> to a string.
\<close>

definition generateAudioAndLipsync_try ::
  "services \<Rightarrow> jsval \<Rightarrow> string \<Rightarrow> string \<Rightarrow> event list \<times> (exn + jsval)" where
  "generateAudioAndLipsync_try sv txt newAudioId gttsLang =
     (let (ev1, result) = generateAudio sv txt newAudioId gttsLang
      in case js_get result ''error'' of
           Inl thrown \<Rightarrow> (ev1, Inl thrown)
         | Inr flag \<Rightarrow>
             if truthy flag
             then (ev1 @ [SetError (js_or (js_prop result ''message'') (JStr AUDIO_ERROR)),
                          SetNotification None], Inr Null)
             else
               (case js_to_string (number_text sv) (js_prop result ''audioId'') of
                  Inl thrown \<Rightarrow> (ev1, Inl thrown)
                | Inr shown \<Rightarrow>
                    (ev1 @ [SetAudioFile (''/audios/'' @ shown @ ''.mp3'')],
                     Inr (js_prop result ''audioPath''))))"

text \<open>
  \<^verbatim>\<open>generateAudioAndLipsync(text, message, audios, detectedLang)\<close>, with its \<^verbatim>\<open>catch\<close>;
  the second and third arguments are not read. With an empty \<^verbatim>\<open>detectedLang\<close> the
  expression for \<^verbatim>\<open>gttsLang\<close> goes on to read the undeclared variable \<^verbatim>\<open>lang\<close>, before
  the \<^verbatim>\<open>try\<close>. The result is the effects, and the value returned or the exception
  thrown.
\<close>

definition generateAudioAndLipsync ::
  "services \<Rightarrow> jsval \<Rightarrow> string \<Rightarrow> event list \<times> (exn + jsval)" where
  "generateAudioAndLipsync sv txt dlang =
     (let ev0 = [SetNotification (Some AUDIO_GENERATION)]
      in if dlang = [] then (ev0, Inl (ReferenceError ''lang is not defined''))
         else
           (let gttsLang = dlang;
                newAudioId = ''audio-'' @ number_to_string (number_text sv) (int (now sv))
            in case generateAudioAndLipsync_try sv txt newAudioId gttsLang of
                 (evs, Inr v) \<Rightarrow> (ev0 @ evs, Inr v)
               | (evs, Inl thrown) \<Rightarrow>
                   (ev0 @ evs @ [SetError (JStr AUDIO_ERROR), SetNotification None], Inr Null)))"

text \<open>\<^verbatim>\<open>messages.slice(-n)\<close>: the last \<open>n\<close> elements, all of them when there are fewer.\<close>

definition slice_last :: "nat \<Rightarrow> 'a list \<Rightarrow> 'a list" where
  "slice_last n xs = drop (length xs - n) xs"

definition conversationHistory :: "msg list \<Rightarrow> string \<Rightarrow> history_entry list" where
  "conversationHistory ms current =
     map (\<lambda>m. \<lparr>role = (if msg_sender m = ''user'' then ''user'' else ''assistant''),
                content = msg_text m\<rparr>) (slice_last 5 ms)
     @ [\<lparr>role = ''user'', content = JStr current\<rparr>]"

text \<open>The \<^verbatim>\<open>try\<close> block of \<^verbatim>\<open>handleSendMessage\<close> (lines 212-232): its effects, and the
  exception if it threw.\<close>

definition handleSendMessage_try :: "services \<Rightarrow> ui \<Rightarrow> event list \<times> exn option" where
  "handleSendMessage_try sv st =
     (let payload = \<lparr>history = conversationHistory (messages st) (message st),
                     detectedLanguage = detectedLang st\<rparr>;
          (ev1, response) = generateResponse (chat_post sv) payload
      in case js_get response ''text'' of
           Inl thrown \<Rightarrow> (ev1, Some thrown)
         | Inr reply \<Rightarrow>
             (case generateAudioAndLipsync sv reply (detectedLang st) of
                (ev2, Inl thrown) \<Rightarrow> (ev1 @ ev2, Some thrown)
              | (ev2, Inr audioPath) \<Rightarrow>
                  if \<not> truthy audioPath
                  then (ev1 @ ev2 @ [SetError (JStr AUDIO_MISSING)], None)
                  else (ev1 @ ev2 @ [AppendMessage \<lparr>msg_text = reply, msg_sender = ''avatar''\<rparr>,
                                     SetNotification None], None)))"

text \<open>\<^verbatim>\<open>handleSendMessage(e)\<close>, with its \<^verbatim>\<open>catch\<close> and \<^verbatim>\<open>finally\<close>.\<close>

definition handleSendMessage :: "services \<Rightarrow> ui \<Rightarrow> event list" where
  "handleSendMessage sv st =
     PreventDefault #
     (if trim (message st) = [] then []
      else
        [AppendMessage \<lparr>msg_text = JStr (message st), msg_sender = ''user''\<rparr>,
         SetMessage [],
         SetSendFeedback True,
         SetTimeout 300 ClearSendFeedback,
         SetIsLoading True,
         SetNotification (Some RESPONSE_GENERATION)]
        @ (case handleSendMessage_try sv st of
             (evs, None) \<Rightarrow> evs
           | (evs, Some err) \<Rightarrow>
               evs @ [SetError (js_or (JStr (exn_message err)) (JStr TURN_ERROR)),
                      SetNotification None])
        @ [SetIsLoading False])"

definition is_avatar_append :: "event \<Rightarrow> bool" where
  "is_avatar_append e = (case e of AppendMessage m \<Rightarrow> msg_sender m = ''avatar'' | _ \<Rightarrow> False)"

definition is_audio_update :: "event \<Rightarrow> bool" where
  "is_audio_update e = (case e of SetAudioFile p \<Rightarrow> True | _ \<Rightarrow> False)"

text \<open>In a trace, the first effect satisfying \<open>p\<close> is followed by one satisfying \<open>q\<close>.\<close>

definition occurs_before :: "('a \<Rightarrow> bool) \<Rightarrow> ('a \<Rightarrow> bool) \<Rightarrow> 'a list \<Rightarrow> bool" where
  "occurs_before p q xs =
     (case dropWhile (\<lambda>x. \<not> p x) xs of [] \<Rightarrow> False | x # rest \<Rightarrow> list_ex q rest)"

definition chat_payloads :: "event list \<Rightarrow> chat_payload list" where
  "chat_payloads evs = concat (map (\<lambda>e. case e of PostChat p \<Rightarrow> [p] | _ \<Rightarrow> []) evs)"

section \<open>Reset (ChatInterface.jsx, lines 241-248)\<close>

definition RESET_DONE :: string where
  "RESET_DONE = ''Conversation r'' @ [eacute] @ ''initialis'' @ [eacute] @ ''e !''"

definition handleResetChat :: "event list" where
  "handleResetChat =
     [SetMessages [],
      RemoveItem ''chatMessages'',
      SetDetectedLang ''en'',
      SetShowLangIndicator False,
      SetNotification (Some RESET_DONE),
      SetTimeout 2000 ClearNotification]"

section \<open>Effects and renders (ChatInterface.jsx, lines 101-122, 139-142, 152-166)\<close>

text \<open>
  The effect over \<^verbatim>\<open>[audioFile]\<close> (lines 101-122). Its body does nothing for an empty
  reference; otherwise it sets the source of the audio element, connects the analyser,
  starts playback and sets \<^verbatim>\<open>isPlaying\<close>, and leaves a cleanup that pauses the element.
\<close>

definition audioEffect :: "ui \<Rightarrow> event list" where
  "audioEffect st =
     (if audioFile st = [] then []
      else [AudioSrc (audioFile st), ConnectAudio, AudioPlay, SetIsPlaying True])"

definition audioCleanup :: "ui \<Rightarrow> event list" where
  "audioCleanup st = (if audioFile st = [] then [] else [AudioPause])"

text \<open>The effect \<^verbatim>\<open>useEffect(() => localStorage.setItem("chatMessages", ...), [messages])\<close>
  (the scrolling it also does is left out).\<close>

definition persistMessages :: "ui \<Rightarrow> event list" where
  "persistMessages st = [SetItem ''chatMessages'' (messages st)]"

definition LANGUAGE_DETECTED :: utf16 where
  "LANGUAGE_DETECTED = units (''Langue d'' @ [eacute] @ ''tect'' @ [eacute] @ ''e : '')"

text \<open>
  The effect over \<^verbatim>\<open>[message, detectedLang]\<close> (lines 152-166), with the classifier as
  parameter. \<^verbatim>\<open>detectLanguage\<close> returns strings only, so the last case does not occur.
\<close>

definition languageEffect :: "(string \<Rightarrow> exn + string) \<Rightarrow> ui \<Rightarrow> event list" where
  "languageEffect franc st =
     (if 3 \<le> length (trim (message st))
      then (case detectLanguage franc (message st) of
              JStr lang \<Rightarrow>
                if lang \<noteq> detectedLang st
                then [SetDetectedLang lang,
                      SetShowLangIndicator True,
                      SetLangNotification (Some (LANGUAGE_DETECTED @ getLangLabel lang)),
                      SetTimeout 3000 HideLangIndicator]
                else []
            | other \<Rightarrow> [])
      else [])"

definition sets_messages :: "event \<Rightarrow> bool" where
  "sets_messages e = (case e of AppendMessage m \<Rightarrow> True | SetMessages ms \<Rightarrow> True | _ \<Rightarrow> False)"

text \<open>
  The effects React runs after a render: those with a dependency that differs from the
  render before, in the order of the source, each reading the state of the new render;
  the cleanup that the audio effect left at the render before runs first. A string cell
  differs when its value does. Every call of \<^verbatim>\<open>setMessages\<close> in the component installs a
  new array, so \<^verbatim>\<open>messages\<close> differs whenever the updates rendered hold such a call.

  These three are the effects that write a cell of \<^typ>\<open>ui\<close>. The others set the class of
  the document body (lines 144-149), start the timers that clear the notifications
  (lines 266-279), set the index of the last message (lines 313-315), or run once when the
  component is mounted (lines 90-99 and 126-137).
\<close>

definition after_render ::
  "(string \<Rightarrow> exn + string) \<Rightarrow> ui \<Rightarrow> event list \<Rightarrow> ui \<Rightarrow> event list" where
  "after_render franc before updates st =
     (if audioFile st \<noteq> audioFile before then audioCleanup before @ audioEffect st else [])
     @ (if list_ex sets_messages updates then persistMessages st else [])
     @ (if message st = message before \<and> detectedLang st = detectedLang before then []
        else languageEffect franc st)"

text \<open>
  One render: the component renders with a batch of updates applied, and the effects of
  that render run. (What the effects set is rendered next, and no effect does anything
  after that render: see \<open>render_settled\<close> below.)
\<close>

definition render :: "(string \<Rightarrow> exn + string) \<Rightarrow> event list \<Rightarrow> ui \<Rightarrow> ui" where
  "render franc updates before =
     (let st = run updates before in run (after_render franc before updates st) st)"

text \<open>
  The updates of a synchronous handler are one batch. Those of an asynchronous handler
  reach React in several batches, one render each; how they are grouped depends on the
  version of React and on when the awaited answers arrive.
\<close>

definition renders :: "(string \<Rightarrow> exn + string) \<Rightarrow> event list list \<Rightarrow> ui \<Rightarrow> ui" where
  "renders franc batches st = fold (render franc) batches st"

text \<open>The grouping with a render whenever the handler waits for an answer to a request.\<close>

fun at_requests :: "event list \<Rightarrow> event list list" where
  "at_requests [] = [[]]"
| "at_requests (e # es) =
     (case e of
        PostChat p \<Rightarrow> [e] # at_requests es
      | PostTTS r \<Rightarrow> [e] # at_requests es
      | PostSTT r \<Rightarrow> [e] # at_requests es
      | _ \<Rightarrow> (case at_requests es of b # bs \<Rightarrow> (e # b) # bs | [] \<Rightarrow> [[e]]))"

section \<open>Voice input (ChatInterface.jsx, lines 282-309)\<close>

text \<open>
  The argument of \<^verbatim>\<open>handleAudioTranscription\<close>: a plain transcript, an object with the
  fields \<^verbatim>\<open>text\<close> and \<^verbatim>\<open>lang\<close> (each a string or missing), or \<^verbatim>\<open>null\<close>/\<^verbatim>\<open>undefined\<close>.
\<close>

datatype transcription =
    Transcript string
  | Result "string option" "string option"
  | NoResult

text \<open>
  \<^verbatim>\<open>handleAudioTranscription(transcriptionResult)\<close>: the effects, and the exception if it
  threw. \<^verbatim>\<open>langMapping\<close> is an object literal here too, and an object literal has no
  member \<^verbatim>\<open>get\<close>: calling it is a TypeError. The timer's callback calls the
  \<^verbatim>\<open>handleSendMessage\<close> of the render that created this handler.
\<close>

definition handleAudioTranscription :: "transcription \<Rightarrow> event list \<times> exn option" where
  "handleAudioTranscription transcriptionResult =
     (case transcriptionResult of
        Transcript s \<Rightarrow> ([SetMessage s, SetTimeout 100 CallSendMessage], None)
      | _ \<Rightarrow>
         (let (txt, lang) = (case transcriptionResult of Result t l \<Rightarrow> (t, l) | _ \<Rightarrow> (None, None))
          in if lang \<noteq> None \<and> lang \<noteq> Some []
             then ([], Some (TypeError ''langMapping.get is not a function''))
             else ([SetMessage (case txt of None \<Rightarrow> [] | Some t \<Rightarrow> t),
                    SetTimeout 100 CallSendMessage], None)))"

text \<open>
  A timer's callback when it runs. It is a closure of the render that set the timer:
  \<^verbatim>\<open>handleSendMessage\<close> called from it reads the state of that render.
\<close>

definition fire :: "services \<Rightarrow> ui \<Rightarrow> callback \<Rightarrow> event list" where
  "fire sv closure cb =
     (case cb of
        ClearSendFeedback \<Rightarrow> [SetSendFeedback False]
      | ClearNotification \<Rightarrow> [SetNotification None]
      | HideLangIndicator \<Rightarrow> [SetShowLangIndicator False]
      | CallSendMessage \<Rightarrow> handleSendMessage sv closure)"

section \<open>Viseme sampling (ChatInterface.jsx, lines 123-137)\<close>

text \<open>
  The log \<^verbatim>\<open>detectedVisemes\<close> and the ref \<^verbatim>\<open>prevViseme\<close> (\<open>None\<close> is its initial
  \<^verbatim>\<open>null\<close>). A viseme is the string label that the analyser of wawa-lipsync shows in
  \<^verbatim>\<open>lipsyncManager.viseme\<close> after \<^verbatim>\<open>processAudio()\<close>; it is the argument of the
  frame callback here.
\<close>

record sampler =
  detectedVisemes :: "string list"
  prevViseme :: "string option"

definition sampler_init :: sampler where
  "sampler_init = \<lparr>detectedVisemes = [], prevViseme = None\<rparr>"

definition analyzeAudio :: "string \<Rightarrow> sampler \<Rightarrow> sampler" where
  "analyzeAudio viseme s =
     (if Some viseme \<noteq> prevViseme s
      then s\<lparr>detectedVisemes := detectedVisemes s @ [viseme], prevViseme := Some viseme\<rparr>
      else s)"

text \<open>One call per animation frame, for the visemes the analyser shows frame after frame.\<close>

definition frames :: "string list \<Rightarrow> sampler \<Rightarrow> sampler" where
  "frames visemes s = fold analyzeAudio visemes s"

section \<open>Concrete scenarios\<close>

text \<open>Inputs at which the theorems below are instantiated: a classifier that always
  answers with one code; a fresh component, or one that starts from stored messages, with
  some text typed into the input box; services that answer every request with a fixed
  body, or fail.\<close>

definition franc_const :: "string \<Rightarrow> string \<Rightarrow> exn + string" where
  "franc_const code s = Inr code"

definition no_storage :: "string \<rightharpoonup> msg list" where
  "no_storage = Map.empty"

definition stored :: "msg list \<Rightarrow> (string \<rightharpoonup> msg list)" where
  "stored ms = no_storage(''chatMessages'' \<mapsto> ms)"

definition typed :: "string \<Rightarrow> ui" where
  "typed s = (initial_ui no_storage)\<lparr>message := s\<rparr>"

definition resumed :: "msg list \<Rightarrow> string \<Rightarrow> ui" where
  "resumed ms s = (initial_ui (stored ms))\<lparr>message := s\<rparr>"

definition earlier_messages :: "msg list" where
  "earlier_messages =
     [\<lparr>msg_text = JStr ''one'', msg_sender = ''user''\<rparr>,
      \<lparr>msg_text = JStr ''two'', msg_sender = ''avatar''\<rparr>,
      \<lparr>msg_text = JStr ''three'', msg_sender = ''user''\<rparr>,
      \<lparr>msg_text = JStr ''four'', msg_sender = ''avatar''\<rparr>,
      \<lparr>msg_text = JStr ''five'', msg_sender = ''user''\<rparr>,
      \<lparr>msg_text = JStr ''six'', msg_sender = ''avatar''\<rparr>,
      \<lparr>msg_text = JStr ''seven'', msg_sender = ''user''\<rparr>]"

definition answering :: "jsval \<Rightarrow> jsval \<Rightarrow> services" where
  "answering chat_body tts_body =
     \<lparr>chat_post = (\<lambda>p. Inr chat_body), tts_post = (\<lambda>r. Inr tts_body), now = 0,
      number_text = decimal_int\<rparr>"

definition chat_failing :: "jsval \<Rightarrow> services" where
  "chat_failing tts_body =
     \<lparr>chat_post = (\<lambda>p. Inl (Exn ''Network Error'' Undefined)),
      tts_post = (\<lambda>r. Inr tts_body), now = 0, number_text = decimal_int\<rparr>"

definition chat_reply :: jsval where
  "chat_reply = JObj [(''text'', JStr ''Hi!'')]"

definition tts_reply :: jsval where
  "tts_reply = JObj [(''audioId'', JStr ''audio-0''), (''audioPath'', JStr ''/audios/audio-0.mp3'')]"

definition tts_reply_without_path :: jsval where
  "tts_reply_without_path = JObj [(''audioId'', JStr ''audio-0'')]"

definition tts_reply_object_id :: jsval where
  "tts_reply_object_id =
     JObj [(''audioId'', JObj [(''toString'', JNum 1)]), (''audioPath'', JStr ''/audios/x.mp3'')]"

text \<open>French text typed and detected, after a conversation, and not yet sent.\<close>

definition french_draft :: ui where
  "french_draft = (resumed earlier_messages ''Bonjour tout le monde'')\<lparr>detectedLang := ''fr''\<rparr>"

text \<open>The word Hello typed while the audio of an earlier answer is loaded and paused.\<close>

definition typed_while_paused :: ui where
  "typed_while_paused =
     (typed ''Hello'')\<lparr>audioFile := ''/audios/audio-0.mp3'', audio_src := ''/audios/audio-0.mp3''\<rparr>"

definition tts_reply_object_id_without_path :: jsval where
  "tts_reply_object_id_without_path = JObj [(''audioId'', JObj [(''toString'', JNum 1)])]"

definition stt_body :: jsval where
  "stt_body = JObj [(''text'', JStr ''bonjour''), (''lang'', JStr ''fr''), (''confidence'', JNum 1)]"

definition stt_answering :: "jsval \<Rightarrow> stt_request \<Rightarrow> exn + jsval" where
  "stt_answering body r = Inr body"

definition stt_failing :: "stt_request \<Rightarrow> exn + jsval" where
  "stt_failing r =
     Inl (Exn ''Request failed with status code 500''
            (JObj [(''status'', JNum 500), (''data'', JObj [(''detail'', JStr ''no speech'')])]))"

section \<open>Values and scenarios\<close>

lemma js_get_object: "v \<noteq> Undefined \<Longrightarrow> v \<noteq> Null \<Longrightarrow> js_get v k = Inr (js_prop v k)"
  by (cases v) simp_all

lemma own_prop_absent: "k \<notin> fst ` set kvs \<Longrightarrow> own_prop kvs k = None"
  by (simp add: own_prop_def map_of_eq_None_iff)

lemma sentinel_values:
  "sentinel m \<noteq> Undefined" "sentinel m \<noteq> Null" "js_prop (sentinel m) ''text'' = Undefined"
  "is_sentinel (sentinel m)" "truthy (js_prop (sentinel m) ''error'')"
  by (simp_all add: sentinel_def own_prop_def object_prototype_keys_def)

lemma dropWhile_all: "(\<forall>x\<in>set (dropWhile P xs). P x) \<longleftrightarrow> (\<forall>x\<in>set xs. P x)"
  by (induction xs) auto

lemma trim_empty_iff: "trim s = [] \<longleftrightarrow> (\<forall>c\<in>set s. js_whitespace c)"
  by (simp add: trim_def dropWhile_all)

lemma trim_Hello: "trim ''Hello'' = ''Hello''"
  by (simp add: trim_def js_whitespace_def)

lemma typed_Hello:
  "trim (message (typed ''Hello'')) \<noteq> []" "detectedLang (typed ''Hello'') \<noteq> []"
  "messages (typed ''Hello'') = []" "message (typed ''Hello'') = ''Hello''"
  "error (typed ''Hello'') = Null" "audioFile (typed ''Hello'') = []"
  by (simp_all add: typed_def initial_ui_def no_storage_def trim_Hello)

lemma typed_while_paused:
  "trim (message typed_while_paused) \<noteq> []" "detectedLang typed_while_paused \<noteq> []"
  "messages typed_while_paused = []" "message typed_while_paused = ''Hello''"
  "audioFile typed_while_paused = ''/audios/audio-0.mp3''"
  "audio_paused typed_while_paused" "\<not> isPlaying typed_while_paused"
  by (simp_all add: typed_while_paused_def typed_def initial_ui_def no_storage_def trim_Hello)

lemma reply_values:
  "chat_reply \<noteq> Undefined" "chat_reply \<noteq> Null" "\<not> truthy (js_prop chat_reply ''error'')"
  "js_prop chat_reply ''text'' = JStr ''Hi!''"
  "tts_reply \<noteq> Undefined" "tts_reply \<noteq> Null" "\<not> truthy (js_prop tts_reply ''error'')"
  "js_prop tts_reply ''audioPath'' = JStr ''/audios/audio-0.mp3''"
  "js_to_string nt (js_prop tts_reply ''audioId'') = Inr ''audio-0''"
  "tts_reply_without_path \<noteq> Undefined" "tts_reply_without_path \<noteq> Null"
  "\<not> truthy (js_prop tts_reply_without_path ''error'')"
  "js_prop tts_reply_without_path ''audioPath'' = Undefined"
  "js_to_string nt (js_prop tts_reply_without_path ''audioId'') = Inr ''audio-0''"
  by (simp_all add: chat_reply_def tts_reply_def tts_reply_without_path_def own_prop_def
      object_prototype_keys_def)

lemma object_id_values:
  "\<not> truthy (js_prop tts_reply_object_id ''error'')"
  "truthy (js_prop tts_reply_object_id ''audioPath'')"
  "js_to_string nt (js_prop tts_reply_object_id ''audioId'') =
     Inl (TypeError ''Cannot convert object to primitive value'')"
  "\<not> truthy (js_prop tts_reply_object_id_without_path ''error'')"
  "\<not> truthy (js_prop tts_reply_object_id_without_path ''audioPath'')"
  "js_to_string nt (js_prop tts_reply_object_id_without_path ''audioId'') =
     Inl (TypeError ''Cannot convert object to primitive value'')"
  by (simp_all add: tts_reply_object_id_def tts_reply_object_id_without_path_def own_prop_def
      object_prototype_keys_def)

lemma answering_posts:
  "snd (generateResponse (chat_post (answering c t)) p) = c"
  "snd (generateAudio (answering c t) (JStr s) a l) = t"
  "generateAudio (answering c t) (JStr s) a l =
     ([PostTTS \<lparr>tts_text = JStr s, audio_id = a, tts_lang = l, speaker = ''female-pt-4''\<rparr>], t)"
  by (simp_all add: answering_def generateResponse_def generateAudio_def generateAudio_try_def)

lemma chat_failing_posts:
  "snd (generateResponse (chat_post (chat_failing t)) p) = sentinel (JStr ''Network Error'')"
  "snd (generateAudio (chat_failing t) Undefined a l) = t"
  by (simp_all add: chat_failing_def generateResponse_def response_detail_def js_opt_def js_or_def
      generateAudio_def generateAudio_try_def)

lemma french_draft:
  "messages french_draft = earlier_messages" "message french_draft = ''Bonjour tout le monde''"
  "detectedLang french_draft = ''fr''" "audioFile french_draft = []"
  "localStorage french_draft ''chatMessages'' = Some earlier_messages"
  by (simp_all add: french_draft_def resumed_def initial_ui_def stored_def)

lemma detect_french:
  "detectLanguage (franc_const ''fra'') ''Bonjour tout le monde'' = JStr ''fr''"
  "3 \<le> length (trim ''Bonjour tout le monde'')"
  by (simp_all add: detectLanguage_def franc_const_def trim_def js_whitespace_def langMapping_def
      langMapping_entries_def own_prop_def js_or_def LANGUAGES_def)

section \<open>Language detection\<close>

lemma detectLanguage_range:
  "detectLanguage franc text \<in> {JStr ''en'', JStr ''fr'', JStr ''ar''}"
  by (auto simp: detectLanguage_def LANGUAGES_def Let_def split: sum.splits)

lemma detectLanguage_short:
  "length (trim text) < 3 \<Longrightarrow> detectLanguage franc text = JStr ''en''"
  by (simp add: detectLanguage_def)

lemma detectLanguage_failure:
  "franc (trim text) = Inl thrown \<Longrightarrow> detectLanguage franc text = JStr ''en''"
  by (simp add: detectLanguage_def)

lemma detectLanguage_unmapped:
  assumes "franc (trim text) = Inr code"
    and "code \<notin> fst ` set langMapping_entries"
    and "code \<notin> {''en'', ''fr'', ''ar''}"
  shows "detectLanguage franc text = JStr ''en''"
proof -
  have "js_prop langMapping code = JObj [] \<or> js_prop langMapping code = Undefined"
    using assms(2) by (simp add: langMapping_def own_prop_absent)
  then have "js_or (js_prop langMapping code) (JStr code) = JObj []
      \<or> js_or (js_prop langMapping code) (JStr code) = JStr code"
    by (auto simp: js_or_def)
  then have "\<not> list_ex (\<lambda>l. JStr (lang_value l) = js_or (js_prop langMapping code) (JStr code)) LANGUAGES"
    using assms(3) by (auto simp: LANGUAGES_def)
  then show ?thesis
    using assms(1) by (simp add: detectLanguage_def Let_def)
qed

text \<open>
  C3. Whatever the classifier answers, \<^verbatim>\<open>detectLanguage\<close> returns one of the tags
  \<^verbatim>\<open>"en"\<close>, \<^verbatim>\<open>"fr"\<close>, \<^verbatim>\<open>"ar"\<close>. It returns \<^verbatim>\<open>"en"\<close> when the trimmed text has fewer than
  three characters, and when the code the classifier detected is no key of the mapping
  table and is not itself one of the three tags.
\<close>

theorem detectLanguage_supported:
  "detectLanguage franc text \<in> {JStr ''en'', JStr ''fr'', JStr ''ar''}
   \<and> (length (trim text) < 3 \<longrightarrow> detectLanguage franc text = JStr ''en'')
   \<and> (\<forall>code. franc (trim text) = Inr code \<and> code \<notin> fst ` set langMapping_entries
          \<and> code \<notin> {''en'', ''fr'', ''ar''}
        \<longrightarrow> detectLanguage franc text = JStr ''en'')"
  using detectLanguage_range detectLanguage_short detectLanguage_unmapped by blast

text \<open>The statement at a text of one letter between blanks, and at a German text that the
  classifier reports as \<^verbatim>\<open>"deu"\<close>.\<close>

theorem detectLanguage_supported_witness:
  "length (trim ''  a '') < 3 \<and> detectLanguage (franc_const ''fra'') ''  a '' = JStr ''en''
   \<and> franc_const ''deu'' (trim ''Guten Tag'') = Inr ''deu''
   \<and> ''deu'' \<notin> fst ` set langMapping_entries \<and> ''deu'' \<notin> {''en'', ''fr'', ''ar''}
   \<and> detectLanguage (franc_const ''deu'') ''Guten Tag'' = JStr ''en''"
proof -
  have short: "length (trim ''  a '') < 3"
    by (simp add: trim_def js_whitespace_def)
  have code: "franc_const ''deu'' (trim ''Guten Tag'') = Inr ''deu''"
    by (simp add: franc_const_def)
  have absent: "''deu'' \<notin> fst ` set langMapping_entries"
    by (simp add: langMapping_entries_def)
  have other: "''deu'' \<notin> {''en'', ''fr'', ''ar''}"
    by simp
  show ?thesis
    using detectLanguage_supported [of "franc_const ''fra''" "''  a ''"]
      detectLanguage_supported [of "franc_const ''deu''" "''Guten Tag''"]
      short code absent other
    by blast
qed

text \<open>The scenarios of the specification: a French sentence classified as \<^verbatim>\<open>"fra"\<close>, an
  English one classified as \<^verbatim>\<open>"eng"\<close>; and a code that names an inherited member.\<close>

lemma detectLanguage_scenarios:
  "detectLanguage (franc_const ''fra'') ''Bonjour, comment vas-tu ?'' = JStr ''fr''"
  "detectLanguage (franc_const ''eng'') ''Hi there'' = JStr ''en''"
  "detectLanguage (franc_const ''toString'') ''Hi there'' = JStr ''en''"
  by (simp_all add: detectLanguage_def franc_const_def trim_def js_whitespace_def langMapping_def
      langMapping_entries_def own_prop_def js_or_def LANGUAGES_def object_prototype_keys_def)

section \<open>Blank input\<close>

text \<open>
  C6. When the input box is empty or holds white space only, \<^verbatim>\<open>handleSendMessage\<close> does
  nothing but \<^verbatim>\<open>e.preventDefault()\<close>: no request is sent, and the state, with the message
  list and the loading indicator, is what it was.
\<close>

theorem blank_input_ignored:
  assumes "\<forall>c\<in>set (message st). js_whitespace c"
  shows "handleSendMessage sv st = [PreventDefault]
    \<and> network_calls (handleSendMessage sv st) = []
    \<and> run (handleSendMessage sv st) st = st
    \<and> messages (run (handleSendMessage sv st) st) = messages st
    \<and> isLoading (run (handleSendMessage sv st) st) = isLoading st"
proof -
  have "trim (message st) = []"
    using assms by (simp add: trim_empty_iff)
  then have "handleSendMessage sv st = [PreventDefault]"
    by (simp add: handleSendMessage_def)
  then show ?thesis
    by (simp add: network_calls_def run_def)
qed

text \<open>Three blanks typed into a fresh component.\<close>

theorem blank_input_ignored_witness:
  "list_all js_whitespace (message (typed ''   ''))
   \<and> handleSendMessage (answering Null Null) (typed ''   '') = [PreventDefault]
   \<and> network_calls (handleSendMessage (answering Null Null) (typed ''   '')) = []
   \<and> messages (run (handleSendMessage (answering Null Null) (typed ''   '')) (typed ''   '')) = []
   \<and> \<not> isLoading (run (handleSendMessage (answering Null Null) (typed ''   '')) (typed ''   ''))"
proof -
  have blank: "\<forall>c\<in>set (message (typed ''   '')). js_whitespace c"
    by (simp add: typed_def js_whitespace_def)
  have start: "messages (typed ''   '') = [] \<and> \<not> isLoading (typed ''   '')"
    by (simp add: typed_def initial_ui_def no_storage_def)
  show ?thesis
    using blank_input_ignored [OF blank, of "answering Null Null"] blank start
    unfolding list_all_iff by metis
qed

section \<open>The context window\<close>

lemma chat_payloads_simps:
  "chat_payloads [] = []"
  "chat_payloads (e # es) = (case e of PostChat p \<Rightarrow> [p] | _ \<Rightarrow> []) @ chat_payloads es"
  "chat_payloads (xs @ ys) = chat_payloads xs @ chat_payloads ys"
  by (simp_all add: chat_payloads_def)

lemma audio_no_chat: "chat_payloads (fst (generateAudioAndLipsync sv txt dlang)) = []"
  by (simp add: generateAudioAndLipsync_def generateAudioAndLipsync_try_def generateAudio_def
      generateAudio_try_def Let_def chat_payloads_simps split: sum.splits)

lemma try_chat_payloads:
  "chat_payloads (fst (handleSendMessage_try sv st)) =
     [\<lparr>history = conversationHistory (messages st) (message st),
       detectedLanguage = detectedLang st\<rparr>]"
proof -
  let ?payload = "\<lparr>history = conversationHistory (messages st) (message st),
       detectedLanguage = detectedLang st\<rparr>"
  let ?response = "snd (generateResponse (chat_post sv) ?payload)"
  show ?thesis
  proof (cases "js_get ?response ''text''")
    case (Inl thrown)
    then show ?thesis
      by (simp add: handleSendMessage_try_def generateResponse_def chat_payloads_simps)
  next
    case (Inr reply)
    obtain ev2 r where audio: "generateAudioAndLipsync sv reply (detectedLang st) = (ev2, r)"
      by (cases "generateAudioAndLipsync sv reply (detectedLang st)")
    then have "chat_payloads ev2 = []"
      using audio_no_chat [of sv reply "detectedLang st"] by simp
    with Inr audio show ?thesis
      by (cases r)
        (simp_all add: handleSendMessage_try_def generateResponse_def chat_payloads_simps Let_def)
  qed
qed

lemma handleSendMessage_chat_payloads:
  "chat_payloads (handleSendMessage sv st) =
     (if trim (message st) = [] then []
      else [\<lparr>history = conversationHistory (messages st) (message st),
              detectedLanguage = detectedLang st\<rparr>])"
proof -
  obtain evs r where body: "handleSendMessage_try sv st = (evs, r)"
    by (cases "handleSendMessage_try sv st")
  then have "chat_payloads evs = [\<lparr>history = conversationHistory (messages st) (message st),
       detectedLanguage = detectedLang st\<rparr>]"
    using try_chat_payloads [of sv st] by simp
  with body show ?thesis
    by (cases r) (simp_all add: handleSendMessage_def chat_payloads_simps)
qed

lemma slice_last_length: "length (slice_last n xs) = min n (length xs)"
  by (simp add: slice_last_def)

lemma slice_last_nth:
  "i < length (slice_last n xs) \<Longrightarrow>
   slice_last n xs ! i = xs ! (length xs - length (slice_last n xs) + i)"
  by (simp add: slice_last_def)

text \<open>
  C4. Whatever the length of the message list, \<^verbatim>\<open>handleSendMessage\<close> sends the chat
  service one payload (none for a blank input). Its history is at most five earlier
  messages, the last ones of the list in their order, followed by the message being
  sent: at most six entries. An earlier message has the role \<^verbatim>\<open>"user"\<close> when its sender
  is \<^verbatim>\<open>"user"\<close> and \<^verbatim>\<open>"assistant"\<close> otherwise, and the message being sent has the role
  \<^verbatim>\<open>"user"\<close>.
\<close>

theorem history_window:
  "\<exists>prior. chat_payloads (handleSendMessage sv st) =
       (if trim (message st) = [] then []
        else [\<lparr>history = prior @ [\<lparr>role = ''user'', content = JStr (message st)\<rparr>],
                detectedLanguage = detectedLang st\<rparr>])
     \<and> length prior \<le> 5
     \<and> length prior = min 5 (length (messages st))
     \<and> (\<forall>i<length prior.
           role (prior ! i) =
             (if msg_sender (messages st ! (length (messages st) - length prior + i)) = ''user''
              then ''user'' else ''assistant'')
         \<and> content (prior ! i) = msg_text (messages st ! (length (messages st) - length prior + i)))"
proof -
  let ?prior = "map (\<lambda>m. \<lparr>role = (if msg_sender m = ''user'' then ''user'' else ''assistant''),
                content = msg_text m\<rparr>) (slice_last 5 (messages st))"
  have len: "length ?prior = min 5 (length (messages st))"
    by (simp add: slice_last_length)
  have "chat_payloads (handleSendMessage sv st) =
       (if trim (message st) = [] then []
        else [\<lparr>history = ?prior @ [\<lparr>role = ''user'', content = JStr (message st)\<rparr>],
                detectedLanguage = detectedLang st\<rparr>])"
    by (simp add: handleSendMessage_chat_payloads conversationHistory_def)
  moreover have "length ?prior \<le> 5"
    using len by simp
  moreover have "\<forall>i<length ?prior.
           role (?prior ! i) =
             (if msg_sender (messages st ! (length (messages st) - length ?prior + i)) = ''user''
              then ''user'' else ''assistant'')
         \<and> content (?prior ! i) = msg_text (messages st ! (length (messages st) - length ?prior + i))"
    using slice_last_nth [of _ 5 "messages st"] by simp
  ultimately show ?thesis
    using len by blast
qed

text \<open>A component that starts from seven stored messages and sends an eighth: the payload
  holds the third to the seventh and the eighth.\<close>

theorem history_window_witness:
  "length (messages (resumed earlier_messages ''eight'')) = 7
   \<and> chat_payloads (handleSendMessage (answering chat_reply tts_reply) (resumed earlier_messages ''eight'')) =
      [\<lparr>history =
          [\<lparr>role = ''user'', content = JStr ''three''\<rparr>,
           \<lparr>role = ''assistant'', content = JStr ''four''\<rparr>,
           \<lparr>role = ''user'', content = JStr ''five''\<rparr>,
           \<lparr>role = ''assistant'', content = JStr ''six''\<rparr>,
           \<lparr>role = ''user'', content = JStr ''seven''\<rparr>,
           \<lparr>role = ''user'', content = JStr ''eight''\<rparr>],
        detectedLanguage = ''en''\<rparr>]"
proof -
  let ?st = "resumed earlier_messages ''eight''"
  let ?sv = "answering chat_reply tts_reply"
  have st: "messages ?st = earlier_messages" "message ?st = ''eight''" "detectedLang ?st = ''en''"
    "trim ''eight'' \<noteq> []" "length earlier_messages = 7"
    by (simp_all add: resumed_def initial_ui_def stored_def trim_def js_whitespace_def
        earlier_messages_def)
  obtain prior where p: "chat_payloads (handleSendMessage ?sv ?st) =
        [\<lparr>history = prior @ [\<lparr>role = ''user'', content = JStr ''eight''\<rparr>],
                detectedLanguage = ''en''\<rparr>]"
     and len: "length prior = 5"
     and entries: "\<forall>i<length prior.
           role (prior ! i) =
             (if msg_sender (earlier_messages ! (7 - length prior + i)) = ''user''
              then ''user'' else ''assistant'')
         \<and> content (prior ! i) = msg_text (earlier_messages ! (7 - length prior + i))"
    using history_window [of ?sv ?st] by (auto simp: st)
  have "prior = [\<lparr>role = ''user'', content = JStr ''three''\<rparr>,
           \<lparr>role = ''assistant'', content = JStr ''four''\<rparr>,
           \<lparr>role = ''user'', content = JStr ''five''\<rparr>,
           \<lparr>role = ''assistant'', content = JStr ''six''\<rparr>,
           \<lparr>role = ''user'', content = JStr ''seven''\<rparr>]"
  proof (rule nth_equalityI)
    show "length prior = length [\<lparr>role = ''user'', content = JStr ''three''\<rparr>,
           \<lparr>role = ''assistant'', content = JStr ''four''\<rparr>,
           \<lparr>role = ''user'', content = JStr ''five''\<rparr>,
           \<lparr>role = ''assistant'', content = JStr ''six''\<rparr>,
           \<lparr>role = ''user'', content = JStr ''seven''\<rparr>]"
      using len by simp
  next
    fix i assume "i < length prior"
    then have "i \<in> {0, 1, 2, 3, 4}" using len by auto
    then show "prior ! i = [\<lparr>role = ''user'', content = JStr ''three''\<rparr>,
           \<lparr>role = ''assistant'', content = JStr ''four''\<rparr>,
           \<lparr>role = ''user'', content = JStr ''five''\<rparr>,
           \<lparr>role = ''assistant'', content = JStr ''six''\<rparr>,
           \<lparr>role = ''user'', content = JStr ''seven''\<rparr>] ! i"
      using entries len
      by (auto simp: earlier_messages_def numeral_2_eq_2 numeral_3_eq_3
          intro: history_entry.equality)
  qed
  with p show ?thesis by (simp add: st)
qed

section \<open>The trace of a turn\<close>

lemma generateResponse_events:
  "generateResponse post payload = ([PostChat payload], snd (generateResponse post payload))"
  by (simp add: generateResponse_def)

text \<open>A result without error flag is the body of an answered request.\<close>

lemma generateAudio_answered:
  assumes "snd (generateAudio sv txt audioId lang) = result"
    and "\<not> truthy (js_prop result ''error'')"
  shows "generateAudio sv txt audioId lang =
      ([PostTTS \<lparr>tts_text = txt, audio_id = audioId, tts_lang = lang, speaker = ''female-pt-4''\<rparr>],
       result)"
proof (cases "js_to_string (number_text sv) txt")
  case (Inl thrown)
  then have "snd (generateAudio sv txt audioId lang) =
      sentinel (js_or (response_detail thrown) (JStr (exn_message thrown)))"
    by (simp add: generateAudio_def generateAudio_try_def)
  with assms(1) have "result = sentinel (js_or (response_detail thrown) (JStr (exn_message thrown)))"
    by simp
  with assms(2) show ?thesis by (simp add: sentinel_values)
next
  case (Inr logged)
  show ?thesis
  proof (cases "tts_post sv \<lparr>tts_text = txt, audio_id = audioId, tts_lang = lang,
      speaker = ''female-pt-4''\<rparr>")
    case (Inl err)
    with Inr have "snd (generateAudio sv txt audioId lang) =
        sentinel (js_or (response_detail err) (JStr (exn_message err)))"
      by (simp add: generateAudio_def generateAudio_try_def)
    with assms(1) have "result = sentinel (js_or (response_detail err) (JStr (exn_message err)))"
      by simp
    with assms(2) show ?thesis by (simp add: sentinel_values)
  next
    case body: (Inr data)
    with Inr assms(1) show ?thesis
      by (simp add: generateAudio_def generateAudio_try_def)
  qed
qed

lemma audio_trace:
  assumes "dlang \<noteq> []"
    and "audioId = ''audio-'' @ number_to_string (number_text sv) (int (now sv))"
    and "snd (generateAudio sv txt audioId dlang) = result"
      "result \<noteq> Undefined" "result \<noteq> Null" "\<not> truthy (js_prop result ''error'')"
    and "js_to_string (number_text sv) (js_prop result ''audioId'') = Inr shown"
  shows "generateAudioAndLipsync sv txt dlang =
      ([SetNotification (Some AUDIO_GENERATION),
        PostTTS \<lparr>tts_text = txt, audio_id = audioId, tts_lang = dlang, speaker = ''female-pt-4''\<rparr>,
        SetAudioFile (''/audios/'' @ shown @ ''.mp3'')],
       Inr (js_prop result ''audioPath''))"
  using assms(1,2,4-7) generateAudio_answered [OF assms(3,6)]
  by (simp add: generateAudioAndLipsync_def generateAudioAndLipsync_try_def js_get_object)

text \<open>The trace of a turn in which the chat client returns an object and the speech
  client a result without error flag whose \<^verbatim>\<open>audioId\<close> converts to a string, with and
  without an \<^verbatim>\<open>audioPath\<close>.\<close>

lemma turn_trace:
  assumes nonblank: "trim (message st) \<noteq> []"
    and lang: "detectedLang st \<noteq> []"
    and payload: "payload = \<lparr>history = conversationHistory (messages st) (message st),
                             detectedLanguage = detectedLang st\<rparr>"
    and chat: "snd (generateResponse (chat_post sv) payload) = response"
      "response \<noteq> Undefined" "response \<noteq> Null"
    and audioId: "audioId = ''audio-'' @ number_to_string (number_text sv) (int (now sv))"
    and tts: "snd (generateAudio sv (js_prop response ''text'') audioId (detectedLang st)) = result"
      "result \<noteq> Undefined" "result \<noteq> Null" "\<not> truthy (js_prop result ''error'')"
    and shown: "js_to_string (number_text sv) (js_prop result ''audioId'') = Inr shown"
  shows "handleSendMessage sv st =
      [PreventDefault,
       AppendMessage \<lparr>msg_text = JStr (message st), msg_sender = ''user''\<rparr>,
       SetMessage [], SetSendFeedback True, SetTimeout 300 ClearSendFeedback, SetIsLoading True,
       SetNotification (Some RESPONSE_GENERATION),
       PostChat payload,
       SetNotification (Some AUDIO_GENERATION),
       PostTTS \<lparr>tts_text = js_prop response ''text'', audio_id = audioId,
                tts_lang = detectedLang st, speaker = ''female-pt-4''\<rparr>,
       SetAudioFile (''/audios/'' @ shown @ ''.mp3'')]
      @ (if truthy (js_prop result ''audioPath'')
         then [AppendMessage \<lparr>msg_text = js_prop response ''text'', msg_sender = ''avatar''\<rparr>,
               SetNotification None]
         else [SetError (JStr AUDIO_MISSING)])
      @ [SetIsLoading False]"
proof -
  have body: "handleSendMessage_try sv st =
      ([PostChat payload, SetNotification (Some AUDIO_GENERATION),
        PostTTS \<lparr>tts_text = js_prop response ''text'', audio_id = audioId,
                 tts_lang = detectedLang st, speaker = ''female-pt-4''\<rparr>,
        SetAudioFile (''/audios/'' @ shown @ ''.mp3'')]
       @ (if truthy (js_prop result ''audioPath'')
          then [AppendMessage \<lparr>msg_text = js_prop response ''text'', msg_sender = ''avatar''\<rparr>,
                SetNotification None]
          else [SetError (JStr AUDIO_MISSING)]), None)"
    using chat payload audio_trace [OF lang audioId tts shown]
      generateResponse_events [of "chat_post sv" payload]
    by (simp add: handleSendMessage_try_def js_get_object)
  show ?thesis
    using nonblank body by (simp add: handleSendMessage_def)
qed

text \<open>A speech result that cannot be used: no answer body, or an \<^verbatim>\<open>audioId\<close> that does
  not convert to a string. The \<^verbatim>\<open>catch\<close> of \<^verbatim>\<open>generateAudioAndLipsync\<close> returns
  \<^verbatim>\<open>null\<close>.\<close>

lemma audio_trace_thrown:
  assumes "dlang \<noteq> []"
    and "audioId = ''audio-'' @ number_to_string (number_text sv) (int (now sv))"
    and "generateAudio sv txt audioId dlang = (evs, result)"
    and "result = Undefined \<or> result = Null
       \<or> (\<not> truthy (js_prop result ''error'')
            \<and> js_to_string (number_text sv) (js_prop result ''audioId'') = Inl thrown)"
  shows "generateAudioAndLipsync sv txt dlang =
      (SetNotification (Some AUDIO_GENERATION) # evs @ [SetError (JStr AUDIO_ERROR), SetNotification None],
       Inr Null)"
proof (cases "result = Undefined \<or> result = Null")
  case True
  with assms(1-3) show ?thesis
    by (auto simp: generateAudioAndLipsync_def generateAudioAndLipsync_try_def)
next
  case False
  then have "js_get result ''error'' = Inr (js_prop result ''error'')"
    by (simp add: js_get_object)
  with False assms show ?thesis
    by (simp add: generateAudioAndLipsync_def generateAudioAndLipsync_try_def)
qed

lemma unusable_result_trace:
  assumes "t = Null \<or> (\<not> truthy (js_prop t ''error'')
        \<and> js_to_string decimal_int (js_prop t ''audioId'') =
            Inl (TypeError ''Cannot convert object to primitive value''))"
    and "trim (message st) \<noteq> []" "detectedLang st \<noteq> []"
  shows "handleSendMessage (answering chat_reply t) st =
      [PreventDefault,
       AppendMessage \<lparr>msg_text = JStr (message st), msg_sender = ''user''\<rparr>,
       SetMessage [], SetSendFeedback True, SetTimeout 300 ClearSendFeedback, SetIsLoading True,
       SetNotification (Some RESPONSE_GENERATION),
       PostChat \<lparr>history = conversationHistory (messages st) (message st),
                 detectedLanguage = detectedLang st\<rparr>,
       SetNotification (Some AUDIO_GENERATION),
       PostTTS \<lparr>tts_text = JStr ''Hi!'',
                audio_id = ''audio-'' @ number_to_string decimal_int 0,
                tts_lang = detectedLang st, speaker = ''female-pt-4''\<rparr>,
       SetError (JStr AUDIO_ERROR), SetNotification None,
       SetError (JStr AUDIO_MISSING),
       SetIsLoading False]"
proof -
  let ?sv = "answering chat_reply t"
  have env: "number_text ?sv = decimal_int" "now ?sv = 0"
    by (simp_all add: answering_def)
  have "generateAudioAndLipsync ?sv (JStr ''Hi!'') (detectedLang st) =
      (SetNotification (Some AUDIO_GENERATION)
         # [PostTTS \<lparr>tts_text = JStr ''Hi!'',
                audio_id = ''audio-'' @ number_to_string decimal_int 0,
                tts_lang = detectedLang st, speaker = ''female-pt-4''\<rparr>]
         @ [SetError (JStr AUDIO_ERROR), SetNotification None], Inr Null)"
    using assms(1) by (intro audio_trace_thrown [OF assms(3)]) (auto simp: env answering_posts)
  then have "handleSendMessage_try ?sv st =
      ([PostChat \<lparr>history = conversationHistory (messages st) (message st),
                 detectedLanguage = detectedLang st\<rparr>,
        SetNotification (Some AUDIO_GENERATION),
        PostTTS \<lparr>tts_text = JStr ''Hi!'',
                audio_id = ''audio-'' @ number_to_string decimal_int 0,
                tts_lang = detectedLang st, speaker = ''female-pt-4''\<rparr>,
        SetError (JStr AUDIO_ERROR), SetNotification None,
        SetError (JStr AUDIO_MISSING)], None)"
    using generateResponse_events [of "chat_post ?sv"] 
    by (simp add: handleSendMessage_try_def answering_posts reply_values js_get_object)
  then show ?thesis
    using assms(2) by (simp add: handleSendMessage_def)
qed

text \<open>A chat answer without body: reading \<^verbatim>\<open>response.text\<close> throws.\<close>

lemma null_chat_trace:
  "handleSendMessage (answering Null t) (typed ''Hello'') =
      [PreventDefault,
       AppendMessage \<lparr>msg_text = JStr ''Hello'', msg_sender = ''user''\<rparr>,
       SetMessage [], SetSendFeedback True, SetTimeout 300 ClearSendFeedback, SetIsLoading True,
       SetNotification (Some RESPONSE_GENERATION),
       PostChat \<lparr>history = conversationHistory [] ''Hello'', detectedLanguage = ''en''\<rparr>,
       SetError (JStr (''Cannot read properties of null (reading '' @ [CHR 0x27] @ ''text'' @ [CHR 0x27] @ '')'')),
       SetNotification None,
       SetIsLoading False]"
  by (simp add: handleSendMessage_def handleSendMessage_try_def generateResponse_def answering_def
      typed_def initial_ui_def no_storage_def trim_Hello TypeError_def js_or_def)

section \<open>A turn with both services answering\<close>

text \<open>
  C2, as the code has it. Take a turn in which the chat client returns a body (not
  \<^verbatim>\<open>null\<close>) without error flag, and the speech client a result (not \<^verbatim>\<open>null\<close>) without
  error flag, with an \<^verbatim>\<open>audioPath\<close> and with an \<^verbatim>\<open>audioId\<close> that converts to a string, as
  every string and number does. Then the audio reference is set once and one avatar
  message is appended, in this order: \<^verbatim>\<open>setAudioFile\<close> is called inside
  \<^verbatim>\<open>generateAudioAndLipsync\<close>, before the avatar message is appended. The updates of the
  turn leave the user message and the avatar message added to the list and the audio
  reference at the path built from \<^verbatim>\<open>audioId\<close>.
\<close>

theorem successful_turn:
  assumes nonblank: "trim (message st) \<noteq> []"
    and lang: "detectedLang st \<noteq> []"
    and payload: "payload = \<lparr>history = conversationHistory (messages st) (message st),
                             detectedLanguage = detectedLang st\<rparr>"
    and chat: "snd (generateResponse (chat_post sv) payload) = response"
      "response \<noteq> Undefined" "response \<noteq> Null" "\<not> truthy (js_prop response ''error'')"
    and audioId: "audioId = ''audio-'' @ number_to_string (number_text sv) (int (now sv))"
    and tts: "snd (generateAudio sv (js_prop response ''text'') audioId (detectedLang st)) = result"
      "result \<noteq> Undefined" "result \<noteq> Null" "\<not> truthy (js_prop result ''error'')"
    and path: "truthy (js_prop result ''audioPath'')"
    and shown: "js_to_string (number_text sv) (js_prop result ''audioId'') = Inr shown"
  shows "filter (\<lambda>e. is_avatar_append e \<or> is_audio_update e) (handleSendMessage sv st) =
      [SetAudioFile (''/audios/'' @ shown @ ''.mp3''),
       AppendMessage \<lparr>msg_text = js_prop response ''text'', msg_sender = ''avatar''\<rparr>]
    \<and> occurs_before is_audio_update is_avatar_append (handleSendMessage sv st)
    \<and> messages (run (handleSendMessage sv st) st) =
        messages st @ [\<lparr>msg_text = JStr (message st), msg_sender = ''user''\<rparr>,
                       \<lparr>msg_text = js_prop response ''text'', msg_sender = ''avatar''\<rparr>]
    \<and> audioFile (run (handleSendMessage sv st) st) = ''/audios/'' @ shown @ ''.mp3''"
proof -
  from turn_trace [OF nonblank lang payload chat(1-3) audioId tts shown] path
  show ?thesis
    by (simp add: is_avatar_append_def is_audio_update_def occurs_before_def run_def)
qed

text \<open>The word Hello typed into a fresh component, both services answering.\<close>

theorem successful_turn_witness:
  "trim (message (typed ''Hello'')) \<noteq> []
   \<and> filter (\<lambda>e. is_avatar_append e \<or> is_audio_update e)
        (handleSendMessage (answering chat_reply tts_reply) (typed ''Hello'')) =
      [SetAudioFile ''/audios/audio-0.mp3'',
       AppendMessage \<lparr>msg_text = JStr ''Hi!'', msg_sender = ''avatar''\<rparr>]
   \<and> messages (run (handleSendMessage (answering chat_reply tts_reply) (typed ''Hello'')) (typed ''Hello'')) =
      [\<lparr>msg_text = JStr ''Hello'', msg_sender = ''user''\<rparr>,
       \<lparr>msg_text = JStr ''Hi!'', msg_sender = ''avatar''\<rparr>]
   \<and> audioFile (run (handleSendMessage (answering chat_reply tts_reply) (typed ''Hello'')) (typed ''Hello'')) =
      ''/audios/audio-0.mp3''"
proof -
  let ?sv = "answering chat_reply tts_reply"
  have tts: "snd (generateAudio ?sv (js_prop chat_reply ''text'')
      (''audio-'' @ number_to_string (number_text ?sv) (int (now ?sv))) (detectedLang (typed ''Hello'')))
      = tts_reply"
    by (simp add: reply_values answering_posts)
  have path: "truthy (js_prop tts_reply ''audioPath'')"
    by (simp add: reply_values)
  show ?thesis
    using successful_turn [OF typed_Hello(1,2) refl answering_posts(1) reply_values(1-3) refl
        tts reply_values(5-7) path reply_values(9)]
    by (simp add: typed_Hello reply_values trim_Hello)
qed

text \<open>
  C2 as it is worded asks for the avatar message first, and for every answer of the two
  services. In the turn above there is one append of an avatar message and one update of
  the audio reference, and the append is not followed by the update: it comes after it.
  And there is neither an append nor an update when the \<^verbatim>\<open>audioId\<close> is an object with a
  property \<^verbatim>\<open>toString\<close> (the template literal for the path throws), when the speech
  service answers without a body, and when the chat service answers without a body.
\<close>

theorem audio_before_avatar_message:
  "length (filter is_avatar_append (handleSendMessage (answering chat_reply tts_reply) (typed ''Hello''))) = 1
   \<and> length (filter is_audio_update (handleSendMessage (answering chat_reply tts_reply) (typed ''Hello''))) = 1
   \<and> \<not> occurs_before is_avatar_append is_audio_update
          (handleSendMessage (answering chat_reply tts_reply) (typed ''Hello''))
   \<and> filter is_avatar_append (handleSendMessage (answering chat_reply tts_reply_object_id) (typed ''Hello'')) = []
   \<and> filter is_audio_update (handleSendMessage (answering chat_reply tts_reply_object_id) (typed ''Hello'')) = []
   \<and> filter is_avatar_append (handleSendMessage (answering chat_reply Null) (typed ''Hello'')) = []
   \<and> filter is_audio_update (handleSendMessage (answering chat_reply Null) (typed ''Hello'')) = []
   \<and> filter is_avatar_append (handleSendMessage (answering Null tts_reply) (typed ''Hello'')) = []
   \<and> filter is_audio_update (handleSendMessage (answering Null tts_reply) (typed ''Hello'')) = []"
proof -
  let ?sv = "answering chat_reply tts_reply"
  have tts: "snd (generateAudio ?sv (js_prop chat_reply ''text'')
      (''audio-'' @ number_to_string (number_text ?sv) (int (now ?sv))) (detectedLang (typed ''Hello'')))
      = tts_reply"
    by (simp add: reply_values answering_posts)
  have order: "length (filter is_avatar_append (handleSendMessage ?sv (typed ''Hello''))) = 1
   \<and> length (filter is_audio_update (handleSendMessage ?sv (typed ''Hello''))) = 1
   \<and> \<not> occurs_before is_avatar_append is_audio_update (handleSendMessage ?sv (typed ''Hello''))"
    using turn_trace [OF typed_Hello(1,2) refl answering_posts(1) reply_values(1,2) refl
      tts reply_values(5-7) reply_values(9)]
    by (simp add: reply_values is_avatar_append_def is_audio_update_def occurs_before_def)
  have object_id: "filter is_avatar_append (handleSendMessage (answering chat_reply tts_reply_object_id) (typed ''Hello'')) = []
   \<and> filter is_audio_update (handleSendMessage (answering chat_reply tts_reply_object_id) (typed ''Hello'')) = []"
  proof -
    have "tts_reply_object_id = Null \<or> (\<not> truthy (js_prop tts_reply_object_id ''error'')
        \<and> js_to_string decimal_int (js_prop tts_reply_object_id ''audioId'') =
            Inl (TypeError ''Cannot convert object to primitive value''))"
      by (simp add: object_id_values)
    from unusable_result_trace [OF this typed_Hello(1,2)] show ?thesis
      by (simp add: is_avatar_append_def is_audio_update_def)
  qed
  have null_tts: "filter is_avatar_append (handleSendMessage (answering chat_reply Null) (typed ''Hello'')) = []
   \<and> filter is_audio_update (handleSendMessage (answering chat_reply Null) (typed ''Hello'')) = []"
    using unusable_result_trace [OF _ typed_Hello(1,2), of Null]
    by (simp add: is_avatar_append_def is_audio_update_def)
  have null_chat: "filter is_avatar_append (handleSendMessage (answering Null tts_reply) (typed ''Hello'')) = []
   \<and> filter is_audio_update (handleSendMessage (answering Null tts_reply) (typed ''Hello'')) = []"
    by (simp add: null_chat_trace is_avatar_append_def is_audio_update_def)
  from order object_id null_tts null_chat show ?thesis by blast
qed

section \<open>Renders\<close>

lemma run_simps:
  "run [] s = s" "run (e # es) s = run es (apply_event e s)" "run (a @ b) s = run b (run a s)"
  by (simp_all add: run_def)

text \<open>The effects of a render write none of the cells that the handlers of a turn write.\<close>

lemma effects_frame:
  "messages (run (after_render franc before updates st) s) = messages s"
  "error (run (after_render franc before updates st) s) = error s"
  "audioFile (run (after_render franc before updates st) s) = audioFile s"
  "message (run (after_render franc before updates st) s) = message s"
  by (auto simp: after_render_def audioCleanup_def audioEffect_def persistMessages_def
      languageEffect_def run_simps split: jsval.splits)

lemma apply_event_cells:
  assumes "messages s = messages t" "error s = error t" "audioFile s = audioFile t"
  shows "messages (apply_event e s) = messages (apply_event e t)
    \<and> error (apply_event e s) = error (apply_event e t)
    \<and> audioFile (apply_event e s) = audioFile (apply_event e t)"
  using assms by (cases e) simp_all

lemma run_cells:
  assumes "messages s = messages t" "error s = error t" "audioFile s = audioFile t"
  shows "messages (run u s) = messages (run u t)
    \<and> error (run u s) = error (run u t)
    \<and> audioFile (run u s) = audioFile (run u t)"
  using assms
proof (induction u arbitrary: s t)
  case Nil
  then show ?case by (simp add: run_simps)
next
  case (Cons e u)
  from apply_event_cells [OF Cons.prems, of e]
  have "messages (apply_event e s) = messages (apply_event e t)"
    "error (apply_event e s) = error (apply_event e t)"
    "audioFile (apply_event e s) = audioFile (apply_event e t)"
    by simp_all
  then show ?case
    unfolding run_simps by (rule Cons.IH)
qed

lemma render_cells:
  "messages (render franc u s) = messages (run u s)
   \<and> error (render franc u s) = error (run u s)
   \<and> audioFile (render franc u s) = audioFile (run u s)"
  by (simp add: render_def Let_def effects_frame)

text \<open>However the updates are grouped into renders, these cells end as the updates leave
  them.\<close>

lemma renders_cells:
  "messages (renders franc bs s) = messages (run (concat bs) s)
   \<and> error (renders franc bs s) = error (run (concat bs) s)
   \<and> audioFile (renders franc bs s) = audioFile (run (concat bs) s)"
proof (induction bs arbitrary: s)
  case Nil
  show ?case by (simp add: renders_def run_simps)
next
  case (Cons b bs)
  have step: "renders franc (b # bs) s = renders franc bs (render franc b s)"
    by (simp add: renders_def)
  from render_cells [of franc b s]
  have "messages (render franc b s) = messages (run b s)"
    "error (render franc b s) = error (run b s)"
    "audioFile (render franc b s) = audioFile (run b s)"
    by simp_all
  from run_cells [OF this, of "concat bs"]
  have "messages (run (concat bs) (render franc b s)) = messages (run (concat (b # bs)) s)"
    "error (run (concat bs) (render franc b s)) = error (run (concat (b # bs)) s)"
    "audioFile (run (concat bs) (render franc b s)) = audioFile (run (concat (b # bs)) s)"
    by (simp_all add: run_simps)
  with Cons.IH [of "render franc b s"] show ?case
    unfolding step by metis
qed

text \<open>Updates that leave the audio element and \<^verbatim>\<open>isPlaying\<close> alone.\<close>

lemma run_quiet:
  assumes "\<forall>e\<in>set u. \<forall>s. audio_src (apply_event e s) = audio_src s
      \<and> audio_paused (apply_event e s) = audio_paused s \<and> isPlaying (apply_event e s) = isPlaying s"
  shows "audio_src (run u s) = audio_src s \<and> audio_paused (run u s) = audio_paused s
    \<and> isPlaying (run u s) = isPlaying s"
  using assms by (induction u arbitrary: s) (simp_all add: run_simps)

lemma other_effects_quiet:
  "audio_src (run (persistMessages t) s) = audio_src s"
  "audio_paused (run (persistMessages t) s) = audio_paused s"
  "isPlaying (run (persistMessages t) s) = isPlaying s"
  "audio_src (run (languageEffect franc t) s) = audio_src s"
  "audio_paused (run (languageEffect franc t) s) = audio_paused s"
  "isPlaying (run (languageEffect franc t) s) = isPlaying s"
  by (auto simp: persistMessages_def languageEffect_def run_simps split: jsval.splits)

text \<open>A render keeps this true: when the audio reference is \<open>p\<close>, the element plays \<open>p\<close>.\<close>

lemma render_playing:
  assumes quiet: "\<forall>e\<in>set u. \<forall>s. audio_src (apply_event e s) = audio_src s
      \<and> audio_paused (apply_event e s) = audio_paused s \<and> isPlaying (apply_event e s) = isPlaying s"
    and p: "p \<noteq> []"
    and inv: "audioFile s = p \<longrightarrow> audio_src s = p \<and> \<not> audio_paused s \<and> isPlaying s"
  shows "audioFile (render franc u s) = p \<longrightarrow>
    audio_src (render franc u s) = p \<and> \<not> audio_paused (render franc u s) \<and> isPlaying (render franc u s)"
proof
  assume at_p: "audioFile (render franc u s) = p"
  let ?st = "run u s"
  have at_new: "audioFile ?st = p"
    using at_p render_cells [of franc u s] by simp
  have cells: "audio_src ?st = audio_src s" "audio_paused ?st = audio_paused s"
    "isPlaying ?st = isPlaying s"
    using run_quiet [OF quiet, of s] by simp_all
  show "audio_src (render franc u s) = p \<and> \<not> audio_paused (render franc u s)
      \<and> isPlaying (render franc u s)"
  proof (cases "audioFile ?st = audioFile s")
    case True
    with at_new inv cells show ?thesis
      by (simp add: render_def Let_def after_render_def run_simps other_effects_quiet)
  next
    case False
    with at_new p show ?thesis
      by (simp add: render_def Let_def after_render_def run_simps other_effects_quiet
          audioEffect_def audioCleanup_def)
  qed
qed

lemma renders_playing:
  assumes quiet: "\<forall>e\<in>set (concat bs). \<forall>s. audio_src (apply_event e s) = audio_src s
      \<and> audio_paused (apply_event e s) = audio_paused s \<and> isPlaying (apply_event e s) = isPlaying s"
    and p: "p \<noteq> []"
    and inv: "audioFile s = p \<longrightarrow> audio_src s = p \<and> \<not> audio_paused s \<and> isPlaying s"
  shows "audioFile (renders franc bs s) = p \<longrightarrow>
    audio_src (renders franc bs s) = p \<and> \<not> audio_paused (renders franc bs s)
    \<and> isPlaying (renders franc bs s)"
  using quiet inv
proof (induction bs arbitrary: s)
  case Nil
  then show ?case by (simp add: renders_def)
next
  case (Cons b bs)
  have step: "renders franc (b # bs) s = renders franc bs (render franc b s)"
    by (simp add: renders_def)
  have "audioFile (render franc b s) = p \<longrightarrow>
    audio_src (render franc b s) = p \<and> \<not> audio_paused (render franc b s) \<and> isPlaying (render franc b s)"
    using Cons.prems by (intro render_playing p) auto
  with Cons.IH [of "render franc b s"] Cons.prems(1) show ?case
    by (simp add: step)
qed

text \<open>What the effects of a render set is rendered next; after that render no effect
  does anything.\<close>

lemma render_settled:
  "after_render franc st (after_render franc before updates st)
     (run (after_render franc before updates st) st) = []"
proof -
  let ?eff = "after_render franc before updates st"
  have no_set: "\<not> list_ex sets_messages ?eff"
    by (auto simp: after_render_def audioCleanup_def audioEffect_def persistMessages_def
        languageEffect_def sets_messages_def split: jsval.splits)
  have lang: "detectedLang (run ?eff st) \<noteq> detectedLang st \<Longrightarrow>
      languageEffect franc (run ?eff st) = []"
    by (auto simp: after_render_def audioCleanup_def audioEffect_def persistMessages_def
        languageEffect_def run_simps split: jsval.splits if_splits)
  show ?thesis
    using no_set lang by (simp add: after_render_def [of franc st] effects_frame)
qed

lemma concat_at_requests: "concat (at_requests evs) = evs"
proof (induction evs)
  case Nil
  show ?case by simp
next
  case (Cons e evs)
  then show ?case
    by (cases e; cases "at_requests evs") auto
qed

lemma send_trace_quiet:
  assumes "handleSendMessage sv st =
      [PreventDefault, AppendMessage m, SetMessage [], SetSendFeedback True,
       SetTimeout 300 ClearSendFeedback, SetIsLoading True, SetNotification n1,
       PostChat payload, SetNotification n2, PostTTS request] @ rest"
    and "\<forall>e\<in>set rest. \<forall>s. audio_src (apply_event e s) = audio_src s
      \<and> audio_paused (apply_event e s) = audio_paused s \<and> isPlaying (apply_event e s) = isPlaying s"
  shows "\<forall>e\<in>set (handleSendMessage sv st). \<forall>s. audio_src (apply_event e s) = audio_src s
      \<and> audio_paused (apply_event e s) = audio_paused s \<and> isPlaying (apply_event e s) = isPlaying s"
  using assms(2) unfolding assms(1) by auto

section \<open>A turn without audio path\<close>

text \<open>
  C10, as the code has it. Take a turn in which the speech client returns a result (not
  \<^verbatim>\<open>null\<close>) without error flag, without \<^verbatim>\<open>audioPath\<close> (or with a falsy one), and with an
  \<^verbatim>\<open>audioId\<close> that converts to a string. The audio reference is still set, to the path
  built from \<^verbatim>\<open>audioId\<close>, and this is the only one of the two updates. However the
  updates of the turn are grouped into renders, at the end the audio reference is that
  path; when it was another one before the turn, the audio effect has set the source of
  the audio element to the path and started playback, and \<^verbatim>\<open>isPlaying\<close> is set; the
  error notification is set; and no avatar message is appended, the list growing by the
  user message only. (The speech service is called only when the detected language is a
  non-empty string and the chat client returned something other than \<^verbatim>\<open>null\<close> or
  \<^verbatim>\<open>undefined\<close>.)
\<close>

theorem audio_path_missing:
  assumes nonblank: "trim (message st) \<noteq> []"
    and lang: "detectedLang st \<noteq> []"
    and payload: "payload = \<lparr>history = conversationHistory (messages st) (message st),
                             detectedLanguage = detectedLang st\<rparr>"
    and chat: "snd (generateResponse (chat_post sv) payload) = response"
      "response \<noteq> Undefined" "response \<noteq> Null"
    and audioId: "audioId = ''audio-'' @ number_to_string (number_text sv) (int (now sv))"
    and tts: "snd (generateAudio sv (js_prop response ''text'') audioId (detectedLang st)) = result"
      "result \<noteq> Undefined" "result \<noteq> Null" "\<not> truthy (js_prop result ''error'')"
    and no_path: "\<not> truthy (js_prop result ''audioPath'')"
    and shown: "js_to_string (number_text sv) (js_prop result ''audioId'') = Inr shown"
    and batches: "concat batches = handleSendMessage sv st"
  shows "filter (\<lambda>e. is_avatar_append e \<or> is_audio_update e) (handleSendMessage sv st) =
      [SetAudioFile (''/audios/'' @ shown @ ''.mp3'')]
    \<and> audioFile (renders franc batches st) = ''/audios/'' @ shown @ ''.mp3''
    \<and> (audioFile st \<noteq> ''/audios/'' @ shown @ ''.mp3'' \<longrightarrow>
          audio_src (renders franc batches st) = ''/audios/'' @ shown @ ''.mp3''
          \<and> \<not> audio_paused (renders franc batches st)
          \<and> isPlaying (renders franc batches st))
    \<and> error (renders franc batches st) = JStr AUDIO_MISSING
    \<and> truthy (error (renders franc batches st))
    \<and> messages (renders franc batches st) =
        messages st @ [\<lparr>msg_text = JStr (message st), msg_sender = ''user''\<rparr>]"
proof -
  let ?path = "''/audios/'' @ shown @ ''.mp3''"
  note trace = turn_trace [OF nonblank lang payload chat audioId tts shown]
  have cells: "messages (renders franc batches st) = messages (run (handleSendMessage sv st) st)"
    "error (renders franc batches st) = error (run (handleSendMessage sv st) st)"
    "audioFile (renders franc batches st) = audioFile (run (handleSendMessage sv st) st)"
    using renders_cells [of franc batches st] batches by simp_all
  have final: "audioFile (run (handleSendMessage sv st) st) = ?path"
    "error (run (handleSendMessage sv st) st) = JStr AUDIO_MISSING"
    "messages (run (handleSendMessage sv st) st) =
        messages st @ [\<lparr>msg_text = JStr (message st), msg_sender = ''user''\<rparr>]"
    "filter (\<lambda>e. is_avatar_append e \<or> is_audio_update e) (handleSendMessage sv st) =
      [SetAudioFile ?path]"
    using trace no_path by (simp_all add: run_def is_avatar_append_def is_audio_update_def)
  have quiet: "\<forall>e\<in>set (concat batches). \<forall>s. audio_src (apply_event e s) = audio_src s
      \<and> audio_paused (apply_event e s) = audio_paused s \<and> isPlaying (apply_event e s) = isPlaying s"
    unfolding batches using trace no_path by (intro send_trace_quiet [where rest = "[SetAudioFile ?path, SetError (JStr AUDIO_MISSING), SetIsLoading False]"]) simp_all
  have playing: "audioFile st \<noteq> ?path \<longrightarrow>
          audio_src (renders franc batches st) = ?path
          \<and> \<not> audio_paused (renders franc batches st)
          \<and> isPlaying (renders franc batches st)"
  proof
    assume "audioFile st \<noteq> ?path"
    then have "audioFile st = ?path \<longrightarrow> audio_src st = ?path \<and> \<not> audio_paused st \<and> isPlaying st"
      by simp
    from renders_playing [OF quiet _ this, of franc] cells(3) final(1)
    show "audio_src (renders franc batches st) = ?path
          \<and> \<not> audio_paused (renders franc batches st)
          \<and> isPlaying (renders franc batches st)"
      by simp
  qed
  show ?thesis
    using cells final playing by (simp add: AUDIO_MISSING_def)
qed

text \<open>The word Hello typed into a fresh component, the speech service answering with an
  \<^verbatim>\<open>audioId\<close> only, and a render whenever the handler waits for an answer.\<close>

theorem audio_path_missing_witness:
  "audioFile (typed ''Hello'') \<noteq> ''/audios/audio-0.mp3''
   \<and> audioFile (renders (franc_const ''eng'')
        (at_requests (handleSendMessage (answering chat_reply tts_reply_without_path) (typed ''Hello'')))
        (typed ''Hello'')) = ''/audios/audio-0.mp3''
   \<and> audio_src (renders (franc_const ''eng'')
        (at_requests (handleSendMessage (answering chat_reply tts_reply_without_path) (typed ''Hello'')))
        (typed ''Hello'')) = ''/audios/audio-0.mp3''
   \<and> \<not> audio_paused (renders (franc_const ''eng'')
        (at_requests (handleSendMessage (answering chat_reply tts_reply_without_path) (typed ''Hello'')))
        (typed ''Hello''))
   \<and> isPlaying (renders (franc_const ''eng'')
        (at_requests (handleSendMessage (answering chat_reply tts_reply_without_path) (typed ''Hello'')))
        (typed ''Hello''))
   \<and> truthy (error (renders (franc_const ''eng'')
        (at_requests (handleSendMessage (answering chat_reply tts_reply_without_path) (typed ''Hello'')))
        (typed ''Hello'')))
   \<and> messages (renders (franc_const ''eng'')
        (at_requests (handleSendMessage (answering chat_reply tts_reply_without_path) (typed ''Hello'')))
        (typed ''Hello'')) = [\<lparr>msg_text = JStr ''Hello'', msg_sender = ''user''\<rparr>]"
proof -
  let ?sv = "answering chat_reply tts_reply_without_path"
  let ?st = "typed ''Hello''"
  have tts: "snd (generateAudio ?sv (js_prop chat_reply ''text'')
      (''audio-'' @ number_to_string (number_text ?sv) (int (now ?sv))) (detectedLang ?st))
      = tts_reply_without_path"
    by (simp add: reply_values answering_posts)
  have no_path: "\<not> truthy (js_prop tts_reply_without_path ''audioPath'')"
    by (simp add: reply_values)
  have fresh: "audioFile ?st \<noteq> ''/audios/audio-0.mp3''"
    by (simp add: typed_Hello)
  from audio_path_missing [OF typed_Hello(1,2) refl answering_posts(1) reply_values(1,2) refl
      tts reply_values(10-12) no_path reply_values(14) concat_at_requests, of "franc_const ''eng''"]
    fresh
  show ?thesis
    by (simp add: typed_Hello AUDIO_MISSING_def)
qed

lemma paused_turn_trace:
  "handleSendMessage (answering chat_reply tts_reply_without_path) typed_while_paused =
      [PreventDefault,
       AppendMessage \<lparr>msg_text = JStr ''Hello'', msg_sender = ''user''\<rparr>,
       SetMessage [], SetSendFeedback True, SetTimeout 300 ClearSendFeedback, SetIsLoading True,
       SetNotification (Some RESPONSE_GENERATION),
       PostChat \<lparr>history = conversationHistory [] ''Hello'', detectedLanguage = ''en''\<rparr>,
       SetNotification (Some AUDIO_GENERATION),
       PostTTS \<lparr>tts_text = JStr ''Hi!'', audio_id = ''audio-'' @ number_to_string decimal_int 0,
                tts_lang = ''en'', speaker = ''female-pt-4''\<rparr>,
       SetAudioFile ''/audios/audio-0.mp3'',
       SetError (JStr AUDIO_MISSING),
       SetIsLoading False]"
proof -
  let ?sv = "answering chat_reply tts_reply_without_path"
  have tts: "snd (generateAudio ?sv (js_prop chat_reply ''text'')
      (''audio-'' @ number_to_string (number_text ?sv) (int (now ?sv))) (detectedLang typed_while_paused))
      = tts_reply_without_path"
    by (simp add: reply_values answering_posts)
  have env: "number_text ?sv = decimal_int" "now ?sv = 0" "detectedLang typed_while_paused = ''en''"
    by (simp_all add: answering_def typed_while_paused_def typed_def initial_ui_def)
  from turn_trace [OF typed_while_paused(1,2) refl answering_posts(1) reply_values(1,2) refl
      tts reply_values(10-12) reply_values(14)]
  show ?thesis
    by (simp add: reply_values typed_while_paused env)
qed

text \<open>
  C10 as it is worded has the audio reference updated, and playback started, for every
  result without error flag and without \<^verbatim>\<open>audioPath\<close>. There is no update when the
  speech service answers without a body, and none when the \<^verbatim>\<open>audioId\<close> is an object with
  a property \<^verbatim>\<open>toString\<close>. And when the path is the one the audio reference holds
  already, its audio loaded and paused, \<^verbatim>\<open>setAudioFile\<close> is called but the reference
  does not change: the audio effect does not run, and the element stays paused.
\<close>

theorem audio_update_exceptions:
  "filter is_audio_update (handleSendMessage (answering chat_reply Null) (typed ''Hello'')) = []
   \<and> audioFile (renders (franc_const ''eng'')
        (at_requests (handleSendMessage (answering chat_reply Null) (typed ''Hello'')))
        (typed ''Hello'')) = []
   \<and> filter is_audio_update
        (handleSendMessage (answering chat_reply tts_reply_object_id_without_path) (typed ''Hello'')) = []
   \<and> audioFile (renders (franc_const ''eng'')
        (at_requests (handleSendMessage (answering chat_reply tts_reply_object_id_without_path) (typed ''Hello'')))
        (typed ''Hello'')) = []
   \<and> filter is_audio_update
        (handleSendMessage (answering chat_reply tts_reply_without_path) typed_while_paused) =
      [SetAudioFile ''/audios/audio-0.mp3'']
   \<and> audioFile typed_while_paused = ''/audios/audio-0.mp3''
   \<and> audio_paused (renders (franc_const ''eng'')
        (at_requests (handleSendMessage (answering chat_reply tts_reply_without_path) typed_while_paused))
        typed_while_paused)
   \<and> \<not> isPlaying (renders (franc_const ''eng'')
        (at_requests (handleSendMessage (answering chat_reply tts_reply_without_path) typed_while_paused))
        typed_while_paused)"
proof -
  have null_body: "filter is_audio_update (handleSendMessage (answering chat_reply Null) (typed ''Hello'')) = []
   \<and> audioFile (run (handleSendMessage (answering chat_reply Null) (typed ''Hello'')) (typed ''Hello'')) = []"
    using unusable_result_trace [OF _ typed_Hello(1,2), of Null]
    by (simp add: is_audio_update_def run_def typed_Hello)
  have "tts_reply_object_id_without_path = Null
      \<or> (\<not> truthy (js_prop tts_reply_object_id_without_path ''error'')
        \<and> js_to_string decimal_int (js_prop tts_reply_object_id_without_path ''audioId'') =
            Inl (TypeError ''Cannot convert object to primitive value''))"
    by (simp add: object_id_values)
  from unusable_result_trace [OF this typed_Hello(1,2)]
  have object_id: "filter is_audio_update
        (handleSendMessage (answering chat_reply tts_reply_object_id_without_path) (typed ''Hello'')) = []
   \<and> audioFile (run (handleSendMessage (answering chat_reply tts_reply_object_id_without_path) (typed ''Hello''))
        (typed ''Hello'')) = []"
    by (simp add: is_audio_update_def run_def typed_Hello)
  have paused: "filter is_audio_update
        (handleSendMessage (answering chat_reply tts_reply_without_path) typed_while_paused) =
      [SetAudioFile ''/audios/audio-0.mp3'']
   \<and> audio_paused (renders (franc_const ''eng'')
        (at_requests (handleSendMessage (answering chat_reply tts_reply_without_path) typed_while_paused))
        typed_while_paused)
   \<and> \<not> isPlaying (renders (franc_const ''eng'')
        (at_requests (handleSendMessage (answering chat_reply tts_reply_without_path) typed_while_paused))
        typed_while_paused)"
    unfolding paused_turn_trace
    by (simp add: is_audio_update_def renders_def render_def after_render_def run_def
        persistMessages_def languageEffect_def sets_messages_def trim_def
        typed_while_paused_def typed_def initial_ui_def no_storage_def)
  from null_body object_id paused typed_while_paused(5)
    renders_cells [of "franc_const ''eng''"
      "at_requests (handleSendMessage (answering chat_reply Null) (typed ''Hello''))" "typed ''Hello''"]
    renders_cells [of "franc_const ''eng''"
      "at_requests (handleSendMessage (answering chat_reply tts_reply_object_id_without_path) (typed ''Hello''))"
      "typed ''Hello''"]
  show ?thesis
    by (simp add: concat_at_requests)
qed

section \<open>A turn with the chat service failing\<close>

text \<open>
  C1. \<^verbatim>\<open>handleSendMessage\<close> does not test the \<^verbatim>\<open>error\<close> flag of what the chat client
  returns. With the chat request failing, the client returns the sentinel, whose
  \<^verbatim>\<open>text\<close> is undefined; the speech service is asked all the same, and when it answers
  with an \<^verbatim>\<open>audioPath\<close> the turn appends an avatar message without text, sets the audio
  reference and leaves the error notification empty.
\<close>

theorem chat_error_unchecked:
  "is_sentinel (snd (generateResponse (chat_post (chat_failing tts_reply))
       \<lparr>history = conversationHistory (messages (typed ''Hello'')) (message (typed ''Hello'')),
        detectedLanguage = detectedLang (typed ''Hello'')\<rparr>))
   \<and> messages (run (handleSendMessage (chat_failing tts_reply) (typed ''Hello'')) (typed ''Hello'')) =
      [\<lparr>msg_text = JStr ''Hello'', msg_sender = ''user''\<rparr>,
       \<lparr>msg_text = Undefined, msg_sender = ''avatar''\<rparr>]
   \<and> error (run (handleSendMessage (chat_failing tts_reply) (typed ''Hello'')) (typed ''Hello'')) = Null
   \<and> audioFile (run (handleSendMessage (chat_failing tts_reply) (typed ''Hello'')) (typed ''Hello'')) =
      ''/audios/audio-0.mp3''"
proof -
  let ?sv = "chat_failing tts_reply"
  have tts: "snd (generateAudio ?sv (js_prop (sentinel (JStr ''Network Error'')) ''text'')
      (''audio-'' @ number_to_string (number_text ?sv) (int (now ?sv))) (detectedLang (typed ''Hello'')))
      = tts_reply"
    by (simp add: sentinel_values chat_failing_posts)
  from turn_trace [OF typed_Hello(1,2) refl chat_failing_posts(1) sentinel_values(1,2) refl
      tts reply_values(5-7) reply_values(9)]
  show ?thesis
    by (simp add: typed_Hello reply_values sentinel_values chat_failing_posts run_def)
qed

section \<open>Reset\<close>

text \<open>
  C8. \<^verbatim>\<open>handleResetChat\<close> empties the message list, removes the stored item and sets the
  detected language to \<^verbatim>\<open>"en"\<close>; the effects of the render that follows undo the last
  two. With a conversation stored and French text left in the input box: the updates of
  the handler leave no stored item and the language \<^verbatim>\<open>"en"\<close>; after the render the
  message list is empty, but the persistence effect has stored the (empty) list again and
  the language effect has set the detected language back to \<^verbatim>\<open>"fr"\<close>.
\<close>

theorem reset_undone_by_effects:
  "messages (run handleResetChat french_draft) = []
   \<and> localStorage (run handleResetChat french_draft) ''chatMessages'' = None
   \<and> detectedLang (run handleResetChat french_draft) = ''en''
   \<and> messages (render (franc_const ''fra'') handleResetChat french_draft) = []
   \<and> localStorage (render (franc_const ''fra'') handleResetChat french_draft) ''chatMessages'' = Some []
   \<and> detectedLang (render (franc_const ''fra'') handleResetChat french_draft) = ''fr''"
proof -
  have after: "messages (run handleResetChat french_draft) = []"
    "localStorage (run handleResetChat french_draft) ''chatMessages'' = None"
    "detectedLang (run handleResetChat french_draft) = ''en''"
    "message (run handleResetChat french_draft) = ''Bonjour tout le monde''"
    "audioFile (run handleResetChat french_draft) = []"
    by (simp_all add: run_def handleResetChat_def french_draft)
  have effects: "after_render (franc_const ''fra'') french_draft handleResetChat
      (run handleResetChat french_draft) =
      [SetItem ''chatMessages'' [],
       SetDetectedLang ''fr'', SetShowLangIndicator True,
       SetLangNotification (Some (LANGUAGE_DETECTED @ getLangLabel ''fr'')),
       SetTimeout 3000 HideLangIndicator]"
    by (simp add: after_render_def after french_draft persistMessages_def languageEffect_def
        detect_french) (simp add: handleResetChat_def sets_messages_def)
  show ?thesis
    by (simp add: render_def Let_def effects after run_simps)
qed

text \<open>The stored item is written again after a reset from every state.\<close>

lemma reset_storage_rewritten:
  "localStorage (render franc handleResetChat st) ''chatMessages'' = Some []"
  by (auto simp: render_def Let_def after_render_def audioCleanup_def audioEffect_def
      persistMessages_def languageEffect_def run_def handleResetChat_def sets_messages_def
      split: jsval.splits)

section \<open>Voice input\<close>

text \<open>
  C9. For a result with a non-empty \<^verbatim>\<open>lang\<close> the handler throws at
  \<^verbatim>\<open>langMapping.get(...)\<close>, before it sets the input box or the timer.
\<close>

theorem transcription_with_lang_throws:
  "handleAudioTranscription (Result (Some ''Bonjour'') (Some ''fr'')) =
     ([], Some (TypeError ''langMapping.get is not a function''))"
  by (simp add: handleAudioTranscription_def)

text \<open>Without \<^verbatim>\<open>lang\<close> the input box is set and the send is scheduled after 100 ms.\<close>

lemma transcription_without_lang:
  "handleAudioTranscription (Transcript s) = ([SetMessage s, SetTimeout 100 CallSendMessage], None)"
  "handleAudioTranscription (Result (Some s) None) = ([SetMessage s, SetTimeout 100 CallSendMessage], None)"
  "handleAudioTranscription NoResult = ([SetMessage [], SetTimeout 100 CallSendMessage], None)"
  by (simp_all add: handleAudioTranscription_def)

text \<open>The scheduled send reads the input box of the render that set the timer: when that
  was blank, nothing is sent, whatever the transcript.\<close>

lemma scheduled_send_blank:
  "trim (message closure) = [] \<Longrightarrow> fire sv closure CallSendMessage = [PreventDefault]"
  by (simp add: fire_def handleSendMessage_def)

section \<open>Speech to text\<close>

lemma generateText_not_a_file:
  "generateText post (NotFile v) modelSize = ([], sentinel (JStr STT_FAILED))"
  by (simp add: generateText_def generateText_try_def response_detail_def js_opt_def js_or_def)

text \<open>
  C7, as the code has it. For an argument that is not a \<^verbatim>\<open>File\<close>,
  \<^verbatim>\<open>generateText\<close> returns the error sentinel and sends nothing. For a \<^verbatim>\<open>File\<close>, when the
  request resolves with a body other than \<^verbatim>\<open>null\<close> and \<^verbatim>\<open>undefined\<close> it returns an object
  with the fields \<^verbatim>\<open>text\<close>, \<^verbatim>\<open>lang\<close> and \<^verbatim>\<open>confidence\<close> of the body; when the request is
  rejected, or resolves without a body, it returns the error sentinel. It never throws.
\<close>

theorem generateText_outcomes:
  assumes request: "request = \<lparr>stt_file = name,
      model_size = (case modelSize of None \<Rightarrow> ''base'' | Some m \<Rightarrow> m)\<rparr>"
  shows "generateText post (NotFile v) modelSize = ([], sentinel (JStr STT_FAILED))
    \<and> network_calls (fst (generateText post (NotFile v) modelSize)) = []
    \<and> (\<forall>data. post request = Inr data \<and> data \<noteq> Undefined \<and> data \<noteq> Null \<longrightarrow>
          generateText post (File name) modelSize =
            ([PostSTT request],
             JObj [(''text'', js_prop data ''text''), (''lang'', js_prop data ''lang''),
                   (''confidence'', js_prop data ''confidence'')]))
    \<and> (\<forall>err. post request = Inl err \<longrightarrow>
          generateText post (File name) modelSize =
            ([PostSTT request], sentinel (js_or (response_detail err) (JStr STT_FAILED))))
    \<and> (\<forall>data. post request = Inr data \<and> (data = Undefined \<or> data = Null) \<longrightarrow>
          generateText post (File name) modelSize =
            ([PostSTT request], sentinel (JStr STT_FAILED)))"
  using request
  by (auto simp: generateText_not_a_file network_calls_def generateText_def generateText_try_def
      js_get_object TypeError_def response_detail_def js_opt_def js_or_def)

text \<open>A string in place of the file; a file with the service answering, failing with a
  detail, and answering without a body.\<close>

theorem generateText_outcomes_witness:
  "generateText (stt_answering stt_body) (NotFile (JStr ''voice.webm'')) None =
     ([], sentinel (JStr STT_FAILED))
   \<and> generateText (stt_answering stt_body) (File ''voice.webm'') None =
     ([PostSTT \<lparr>stt_file = ''voice.webm'', model_size = ''base''\<rparr>],
      JObj [(''text'', JStr ''bonjour''), (''lang'', JStr ''fr''), (''confidence'', JNum 1)])
   \<and> generateText stt_failing (File ''voice.webm'') None =
     ([PostSTT \<lparr>stt_file = ''voice.webm'', model_size = ''base''\<rparr>],
      sentinel (JStr ''no speech''))
   \<and> generateText (stt_answering Null) (File ''voice.webm'') None =
     ([PostSTT \<lparr>stt_file = ''voice.webm'', model_size = ''base''\<rparr>],
      sentinel (JStr STT_FAILED))"
proof -
  let ?request = "\<lparr>stt_file = ''voice.webm'', model_size = ''base''\<rparr>"
  have request: "?request = \<lparr>stt_file = ''voice.webm'',
      model_size = (case None of None \<Rightarrow> ''base'' | Some m \<Rightarrow> m)\<rparr>"
    by simp
  have answers: "stt_answering stt_body ?request = Inr stt_body" "stt_body \<noteq> Undefined"
    "stt_body \<noteq> Null" "js_prop stt_body ''text'' = JStr ''bonjour''"
    "js_prop stt_body ''lang'' = JStr ''fr''" "js_prop stt_body ''confidence'' = JNum 1"
    "stt_answering Null ?request = Inr Null"
    by (simp_all add: stt_answering_def stt_body_def own_prop_def)
  have fails: "stt_failing ?request = Inl (Exn ''Request failed with status code 500''
            (JObj [(''status'', JNum 500), (''data'', JObj [(''detail'', JStr ''no speech'')])]))"
    "js_or (response_detail (Exn ''Request failed with status code 500''
            (JObj [(''status'', JNum 500), (''data'', JObj [(''detail'', JStr ''no speech'')])])))
       (JStr STT_FAILED) = JStr ''no speech''"
    by (simp_all add: stt_failing_def response_detail_def js_opt_def js_or_def own_prop_def)
  show ?thesis
    using generateText_outcomes [OF request, of "stt_answering stt_body" "JStr ''voice.webm''"]
      generateText_outcomes [OF request, of stt_failing Null]
      generateText_outcomes [OF request, of "stt_answering Null" Null]
      answers fails
    by (simp add: answers fails)
qed

text \<open>
  C7 as it is worded names a field \<^verbatim>\<open>language\<close>. The object returned for a transcribed
  file has no such field: the language is in \<^verbatim>\<open>lang\<close>.
\<close>

theorem generateText_has_no_language_field:
  "js_prop (snd (generateText (stt_answering stt_body) (File ''voice.webm'') None)) ''language'' = Undefined
   \<and> js_prop (snd (generateText (stt_answering stt_body) (File ''voice.webm'') None)) ''lang'' = JStr ''fr''
   \<and> snd (generateText (stt_answering stt_body) (File ''voice.webm'') None) =
       JObj [(''text'', JStr ''bonjour''), (''lang'', JStr ''fr''), (''confidence'', JNum 1)]"
  by (simp add: generateText_def generateText_try_def stt_answering_def stt_body_def own_prop_def
      object_prototype_keys_def)

section \<open>The viseme log\<close>

lemma frames_snoc: "frames (vs @ [v]) s = analyzeAudio v (frames vs s)"
  by (simp add: frames_def)

text \<open>The ref holds the sample of the frame before.\<close>

lemma frames_prev:
  "prevViseme (frames vs sampler_init) = (if vs = [] then None else Some (last vs))"
proof (induction vs rule: rev_induct)
  case Nil
  show ?case by (simp add: frames_def sampler_init_def)
next
  case (snoc v vs)
  then show ?case by (simp add: frames_snoc analyzeAudio_def)
qed

text \<open>It is also the last entry of the log, once there is one.\<close>

lemma frames_log_last:
  "detectedVisemes (frames vs sampler_init) \<noteq> [] \<Longrightarrow>
   prevViseme (frames vs sampler_init) = Some (last (detectedVisemes (frames vs sampler_init)))"
proof (induction vs rule: rev_induct)
  case Nil
  then show ?case by (simp add: frames_def sampler_init_def)
next
  case (snoc v vs)
  then show ?case
    by (cases "Some v = prevViseme (frames vs sampler_init)")
      (simp_all add: frames_snoc analyzeAudio_def)
qed

lemma frames_distinct_adj: "distinct_adj (detectedVisemes (frames vs sampler_init))"
proof (induction vs rule: rev_induct)
  case Nil
  show ?case by (simp add: frames_def sampler_init_def)
next
  case (snoc v vs)
  show ?case
  proof (cases "Some v = prevViseme (frames vs sampler_init)")
    case True
    with snoc show ?thesis by (simp add: frames_snoc analyzeAudio_def)
  next
    case False
    show ?thesis
    proof (cases "detectedVisemes (frames vs sampler_init) = []")
      case True
      with False show ?thesis by (simp add: frames_snoc analyzeAudio_def)
    next
      case nonempty: False
      from frames_log_last [OF nonempty] False
      have "last (detectedVisemes (frames vs sampler_init)) \<noteq> v" by auto
      with snoc nonempty False show ?thesis
        by (simp add: frames_snoc analyzeAudio_def distinct_adj_append_iff)
    qed
  qed
qed

lemma analyzeAudio_prefix: "prefix (detectedVisemes s) (detectedVisemes (analyzeAudio v s))"
  by (simp add: analyzeAudio_def)

lemma frames_prefix: "prefix (detectedVisemes s) (detectedVisemes (frames ws s))"
proof (induction ws rule: rev_induct)
  case Nil
  show ?case by (simp add: frames_def)
next
  case (snoc w ws)
  have "prefix (detectedVisemes (frames ws s)) (detectedVisemes (frames (ws @ [w]) s))"
    by (simp add: frames_snoc analyzeAudio_prefix)
  with snoc show ?case by (rule prefix_order.trans)
qed

text \<open>
  C5. After any number of frames the log has no two equal neighbours; the sample of a
  frame is appended exactly when it differs from the sample of the frame before (always
  on the first frame); and the log of an earlier moment is a prefix of every later log,
  so that no entry is removed or changed.
\<close>

theorem viseme_log_deduplicated:
  "distinct_adj (detectedVisemes (frames vs sampler_init))
   \<and> detectedVisemes (frames (vs @ [v]) sampler_init) =
       (if vs \<noteq> [] \<and> last vs = v then detectedVisemes (frames vs sampler_init)
        else detectedVisemes (frames vs sampler_init) @ [v])
   \<and> prefix (detectedVisemes (frames vs sampler_init)) (detectedVisemes (frames (vs @ ws) sampler_init))"
proof -
  have "frames (vs @ ws) sampler_init = frames ws (frames vs sampler_init)"
    by (simp add: frames_def)
  then show ?thesis
    using frames_distinct_adj [of vs] frames_prev [of vs] frames_prefix [of "frames vs sampler_init" ws]
    by (auto simp: frames_snoc analyzeAudio_def)
qed

lemma viseme_log_example:
  "detectedVisemes (frames [''sil'', ''sil'', ''aa'', ''aa'', ''sil'', ''O''] sampler_init)
     = [''sil'', ''aa'', ''sil'', ''O'']"
  by (simp add: frames_def analyzeAudio_def sampler_init_def)

end
